theory Spec2Isabelle
  imports Complex_Main
begin

section \<open>Python values used by the sources\<close>

text \<open>
  Exceptions of the modelled Python code are values. \<open>ClientError\<close> stands for any
  exception raised by a request to an AWS service (DynamoDB, S3, SNS, CloudWatch).
\<close>

datatype error =
    ZeroDivisionError
  | KeyError string
  | TypeError string
  | ClientError string
  | ReadError string

subsection \<open>Floats\<close>

text \<open>
  A Python float is an IEEE binary64 number. It is modelled by its exact value, a rational,
  and every float operation rounds the exact result to the nearest number with a 53 bit
  significand, ties to even (\<open>to_double\<close>). The exponent range is not modelled: the
  quantities computed by the sources (usage ratios, element counts, percentages) are far
  from overflow and underflow.
\<close>

function bit_length :: "int \<Rightarrow> int" where
  "bit_length n = (if n \<le> 0 then 0 else 1 + bit_length (n div 2))"
  by pat_completeness auto
termination
  by (relation "measure nat") auto

declare bit_length.simps [simp del]

definition pow2 :: "int \<Rightarrow> rat" where
  "pow2 e = (if 0 \<le> e then 2 ^ nat e else 1 / 2 ^ nat (- e))"

definition round_half_even :: "rat \<Rightarrow> int" where
  "round_half_even x =
     (let f = \<lfloor>x\<rfloor>; d = x - of_int f
      in if d < 1 / 2 then f
         else if 1 / 2 < d then f + 1
         else if even f then f else f + 1)"

definition ilog2 :: "rat \<Rightarrow> int" where
  \<comment> \<open>\<open>\<lfloor>log\<^sub>2 x\<rfloor>\<close> for \<open>0 < x\<close>\<close>
  "ilog2 x =
     (let (n, d) = quotient_of x;
          k = bit_length n - bit_length d
      in if pow2 k \<le> x then k else k - 1)"

definition to_double :: "rat \<Rightarrow> rat" where
  "to_double x =
     (if x = 0 then 0
      else let e = ilog2 \<bar>x\<bar> - 52
           in of_int (round_half_even (x / pow2 e)) * pow2 e)"

definition truediv :: "int \<Rightarrow> int \<Rightarrow> error + rat" where
  \<comment> \<open>\<open>a / b\<close> on Python ints: the correctly rounded quotient\<close>
  "truediv a b = (if b = 0 then Inl ZeroDivisionError else Inr (to_double (of_int a / of_int b)))"

definition float_of_int :: "int \<Rightarrow> rat" where
  "float_of_int n = to_double (of_int n)"

definition float_mul :: "rat \<Rightarrow> rat \<Rightarrow> rat" where
  "float_mul x y = to_double (x * y)"

definition py_int :: "rat \<Rightarrow> int" where
  \<comment> \<open>\<open>int(x)\<close> truncates towards zero\<close>
  "py_int x = (if 0 \<le> x then \<lfloor>x\<rfloor> else \<lceil>x\<rceil>)"

definition py_round :: "rat \<Rightarrow> nat \<Rightarrow> rat" where
  \<comment> \<open>\<open>round(x, ndigits)\<close>: the exact value rounded to \<open>ndigits\<close> decimals, ties to even,
      then the nearest float\<close>
  "py_round x ndigits =
     to_double (of_int (round_half_even (x * 10 ^ ndigits)) / 10 ^ ndigits)"

section \<open>CloudWatch metrics (utils/cloudwatch\_metrics.py)\<close>

record metric =
  metric_name :: string
  metric_value :: rat
  metric_unit :: string
  metric_dimensions :: "(string \<times> string) list"

text \<open>
  The message handed to \<open>_send_alert\<close> is an f-string; the model keeps its template and
  the interpolated values (API name, percentage, usage count, quota limit).
\<close>

datatype alert_message =
    is_exceeded: QuotaExceededMessage string int int
  | is_critical: CriticalMessage string rat int int
  | is_warning: WarningMessage string rat int int

record alert =
  alert_topic :: string
  alert_level :: string
  alert_message :: alert_message
  alert_action_required :: bool

record usage_item =
  item_usage_count :: "int option"
  item_last_updated :: "string option"
  item_last_operation :: "string option"

text \<open>
  The services the monitor talks to. \<open>usage_items\<close> is the DynamoDB usage table, keyed
  by \<open>(api_name, period)\<close>; \<open>published_metrics\<close> and \<open>published_alerts\<close> log
  what CloudWatch and SNS accepted. The flags \<open>dynamodb_up\<close>, \<open>cloudwatch_up\<close> and
  \<open>sns_up\<close> say whether a request to the service succeeds (otherwise the boto3 call
  raises). \<open>period_key\<close> and \<open>timestamp\<close> are the two renderings of
  \<open>datetime.now(timezone.utc)\<close>.
\<close>

record world =
  usage_items :: "(string \<times> string) \<rightharpoonup> usage_item"
  dynamodb_up :: bool
  published_metrics :: "metric list"
  cloudwatch_up :: bool
  published_alerts :: "alert list"
  sns_up :: bool
  period_key :: string
  timestamp :: string

text \<open>
  The attributes of a \<open>QuotaMonitor\<close>. \<open>cloudwatch\<close>, \<open>sns_client\<close> and
  \<open>usage_table\<close> say whether the client object was created (it is \<open>None\<close> when
  \<open>__init__\<close> caught an exception).
\<close>

record quota_monitor =
  api_name :: string
  quota_limit :: "int option"
  warning_threshold :: rat
  critical_threshold :: rat
  cloudwatch :: bool
  sns_client :: bool
  sns_topic_arn :: "string option"
  usage_table :: bool

definition default_thresholds :: "quota_monitor \<Rightarrow> bool" where
  \<comment> \<open>the constructor's defaults \<open>warning_threshold=0.8, critical_threshold=0.95\<close>\<close>
  "default_thresholds q \<longleftrightarrow>
     warning_threshold q = to_double (4 / 5) \<and> critical_threshold q = to_double (19 / 20)"

definition put_metric ::
  "quota_monitor \<Rightarrow> string \<Rightarrow> rat \<Rightarrow> string \<Rightarrow> (string \<times> string) list \<Rightarrow> world \<Rightarrow> bool \<times> world" where
  "put_metric q name v unit dims w =
     (if \<not> cloudwatch q then (False, w)
      else if cloudwatch_up w then
        (True, w\<lparr>published_metrics := published_metrics w @
           [\<lparr>metric_name = name, metric_value = v, metric_unit = unit, metric_dimensions = dims\<rparr>]\<rparr>)
      else (False, w))"

definition put_api_call_metric ::
  "quota_monitor \<Rightarrow> string \<Rightarrow> bool \<Rightarrow> string \<Rightarrow> world \<Rightarrow> bool \<times> world" where
  "put_api_call_metric q api success operation w =
     (let dimensions = [(''APIName'', api)] @ (if operation \<noteq> [] then [(''Operation'', operation)] else []);
          (_, w1) = put_metric q ''APICallCount'' 1 ''Count'' dimensions w;
          status_dimensions = dimensions @ [(''Status'', if success then ''Success'' else ''Failure'')]
      in put_metric q ''APICallStatus'' 1 ''Count'' status_dimensions w1)"

definition put_quota_usage_metric ::
  "quota_monitor \<Rightarrow> string \<Rightarrow> int \<Rightarrow> int \<Rightarrow> world \<Rightarrow> bool \<times> world" where
  "put_quota_usage_metric q api usage limit w =
     (let dimensions = [(''APIName'', api), (''Period'', ''Monthly'')];
          (_, w1) = put_metric q ''QuotaUsage'' (float_of_int usage) ''Count'' dimensions w;
          percentage = (if 0 < limit
                        then float_mul (to_double (of_int usage / of_int limit)) 100 else 0)
      in put_metric q ''QuotaUsagePercentage'' percentage ''Percent'' dimensions w1)"

definition put_error_metric ::
  "quota_monitor \<Rightarrow> string \<Rightarrow> string \<Rightarrow> string \<Rightarrow> world \<Rightarrow> bool \<times> world" where
  "put_error_metric q api error_type operation w =
     (let dimensions = [(''APIName'', api), (''ErrorType'', error_type)]
                       @ (if operation \<noteq> [] then [(''Operation'', operation)] else [])
      in put_metric q ''APIError'' 1 ''Count'' dimensions w)"

section \<open>The quota monitor (utils/quota\_monitor.py)\<close>

record usage_report =
  success :: bool
  usage_count :: int
  report_quota_limit :: "int option"
  usage_percentage :: rat
  alert_sent :: bool
  quota_exceeded :: bool

record usage_info =
  info_api_name :: string
  info_period :: string
  info_usage_count :: int
  info_quota_limit :: "int option"
  info_usage_percentage :: rat
  info_last_updated :: "string option"
  info_last_operation :: "string option"

definition increment_usage_counter :: "quota_monitor \<Rightarrow> string \<Rightarrow> world \<Rightarrow> int \<times> world" where
  \<comment> \<open>\<open>_increment_usage_counter\<close>: the update \<open>ADD usage_count 1\<close> with
      \<open>ReturnValues='ALL_NEW'\<close>; a failed request is caught and gives 0\<close>
  "increment_usage_counter q operation w =
     (if \<not> usage_table q then (0, w)
      else if \<not> dynamodb_up w then (0, w)
      else
        let key = (api_name q, period_key w);
            old = (case usage_items w key of
                     None \<Rightarrow> 0
                   | Some item \<Rightarrow> (case item_usage_count item of None \<Rightarrow> 0 | Some c \<Rightarrow> c));
            new = old + 1
        in (new, w\<lparr>usage_items := (usage_items w)(key \<mapsto>
                  \<lparr>item_usage_count = Some new,
                   item_last_updated = Some (timestamp w),
                   item_last_operation = Some operation\<rparr>)\<rparr>))"

definition get_current_usage :: "quota_monitor \<Rightarrow> world \<Rightarrow> string + usage_info" where
  \<comment> \<open>\<open>Inl\<close> is the dictionary \<open>{"error": ...}\<close>\<close>
  "get_current_usage q w =
     (if \<not> usage_table q then Inl ''Usage tracking not available''
      else if \<not> dynamodb_up w then Inl ''ClientError''
      else
        (case usage_items w (api_name q, period_key w) of
           Some item \<Rightarrow>
             let usage = (case item_usage_count item of None \<Rightarrow> 0 | Some c \<Rightarrow> c);
                 percentage = (case quota_limit q of
                                 None \<Rightarrow> 0
                               | Some l \<Rightarrow> if l = 0 then 0 else to_double (of_int usage / of_int l))
             in Inr \<lparr>info_api_name = api_name q, info_period = period_key w,
                     info_usage_count = usage, info_quota_limit = quota_limit q,
                     info_usage_percentage = percentage,
                     info_last_updated = item_last_updated item,
                     info_last_operation = item_last_operation item\<rparr>
         | None \<Rightarrow>
             Inr \<lparr>info_api_name = api_name q, info_period = period_key w,
                   info_usage_count = 0, info_quota_limit = quota_limit q,
                   info_usage_percentage = 0,
                   info_last_updated = None, info_last_operation = None\<rparr>))"

definition send_alert ::
  "quota_monitor \<Rightarrow> string \<Rightarrow> alert_message \<Rightarrow> int \<Rightarrow> rat \<Rightarrow> world \<Rightarrow> bool \<times> world" where
  \<comment> \<open>\<open>_send_alert\<close>\<close>
  "send_alert q level message usage percentage w =
     (case sns_topic_arn q of
        None \<Rightarrow> (False, w)
      | Some arn \<Rightarrow>
          if \<not> sns_client q \<or> arn = [] then (False, w)
          else if sns_up w then
            (True, w\<lparr>published_alerts := published_alerts w @
               [\<lparr>alert_topic = arn, alert_level = level, alert_message = message,
                 alert_action_required = (1 \<le> percentage)\<rparr>]\<rparr>)
          else (False, w))"

text \<open>
  \<open>track_api_call\<close> is modelled in three blocks, in the order of the source: the two
  metric calls at its head (\<open>publish_call_metrics\<close>), the body of
  \<open>if self.quota_limit and self.quota_limit > 0\<close> (\<open>check_thresholds\<close>), and the
  method itself. Nothing inside the \<open>try\<close> of the source raises: the helpers it calls
  catch their own exceptions, and the division is guarded by \<open>quota_limit > 0\<close>; so
  the \<open>except\<close> branch has no counterpart here.
\<close>

definition publish_call_metrics ::
  "quota_monitor \<Rightarrow> string \<Rightarrow> bool \<Rightarrow> string option \<Rightarrow> world \<Rightarrow> world" where
  "publish_call_metrics q operation succ error_type w =
     (let w1 = snd (put_api_call_metric q (api_name q) succ operation w)
      in case error_type of
           None \<Rightarrow> w1
         | Some t \<Rightarrow>
             if t \<noteq> [] then snd (put_error_metric q (api_name q) t operation w1) else w1)"

definition check_thresholds ::
  "quota_monitor \<Rightarrow> int \<Rightarrow> int \<Rightarrow> usage_report \<Rightarrow> world \<Rightarrow> usage_report \<times> world" where
  "check_thresholds q usage limit result0 w =
     (let percentage = to_double (of_int usage / of_int limit);
          result = result0\<lparr>usage_percentage := percentage\<rparr>;
          w4 = snd (put_quota_usage_metric q (api_name q) usage limit w)
      in if 1 \<le> percentage then
           (case send_alert q ''CRITICAL''
                   (QuotaExceededMessage (api_name q) usage limit) usage percentage w4 of
              (sent, w5) \<Rightarrow> (result\<lparr>quota_exceeded := True, alert_sent := sent\<rparr>, w5))
         else if critical_threshold q \<le> percentage then
           (case send_alert q ''CRITICAL''
                   (CriticalMessage (api_name q) percentage usage limit) usage percentage w4 of
              (sent, w5) \<Rightarrow> (result\<lparr>alert_sent := sent\<rparr>, w5))
         else if warning_threshold q \<le> percentage then
           (case send_alert q ''WARNING''
                   (WarningMessage (api_name q) percentage usage limit) usage percentage w4 of
              (sent, w5) \<Rightarrow> (result\<lparr>alert_sent := sent\<rparr>, w5))
         else (result, w4))"

definition initial_report :: "quota_monitor \<Rightarrow> bool \<Rightarrow> usage_report" where
  \<comment> \<open>the dictionary \<open>result\<close> as first built\<close>
  "initial_report q succ =
     \<lparr>success = succ, usage_count = 0, report_quota_limit = quota_limit q,
      usage_percentage = 0, alert_sent = False, quota_exceeded = False\<rparr>"

definition track_api_call ::
  "quota_monitor \<Rightarrow> string \<Rightarrow> bool \<Rightarrow> string option \<Rightarrow> world \<Rightarrow> usage_report \<times> world" where
  "track_api_call q operation succ error_type w =
     (let w2 = publish_call_metrics q operation succ error_type w
      in if succ \<and> usage_table q then
           (case increment_usage_counter q operation w2 of
              (usage, w3) \<Rightarrow>
                let result = (initial_report q succ)\<lparr>usage_count := usage\<rparr>
                in (case quota_limit q of
                      None \<Rightarrow> (result, w3)
                    | Some limit \<Rightarrow>
                        if limit \<noteq> 0 \<and> 0 < limit then check_thresholds q usage limit result w3
                        else (result, w3)))
         else (initial_report q succ, w2))"

definition check_quota_available :: "quota_monitor \<Rightarrow> world \<Rightarrow> bool" where
  "check_quota_available q w =
     (case quota_limit q of
        None \<Rightarrow> True
      | Some limit \<Rightarrow>
          if limit = 0 then True
          else (case get_current_usage q w of
                  Inl _ \<Rightarrow> True
                | Inr info \<Rightarrow> info_usage_count info < limit))"

subsection \<open>Sample monitor and services\<close>

definition example_monitor :: quota_monitor where
  "example_monitor =
     \<lparr>api_name = ''AdobeAPI'', quota_limit = Some 100,
      warning_threshold = to_double (4 / 5), critical_threshold = to_double (19 / 20),
      cloudwatch = True, sns_client = True, sns_topic_arn = Some ''arn:aws:sns:quota-alerts'',
      usage_table = True\<rparr>"

definition example_world :: "int option \<Rightarrow> world" where
  "example_world c =
     \<lparr>usage_items = (case c of
         None \<Rightarrow> Map.empty
       | Some n \<Rightarrow> [(''AdobeAPI'', ''2025-01'') \<mapsto>
            \<lparr>item_usage_count = Some n, item_last_updated = None, item_last_operation = None\<rparr>]),
      dynamodb_up = True, published_metrics = [], cloudwatch_up = True,
      published_alerts = [], sns_up = True,
      period_key = ''2025-01'', timestamp = ''2025-01-15T10:00:00+00:00''\<rparr>"


subsection \<open>Auxiliary predicates\<close>

definition only_metrics :: "world \<Rightarrow> world \<Rightarrow> bool" where
  "only_metrics w w' \<longleftrightarrow> (\<exists>ms. w' = w\<lparr>published_metrics := published_metrics w @ ms\<rparr>)"


definition expected_alert :: "quota_monitor \<Rightarrow> rat \<Rightarrow> alert \<Rightarrow> bool" where
  "expected_alert q p a \<longleftrightarrow>
     (if 1 \<le> p then alert_level a = ''CRITICAL'' \<and> is_exceeded (alert_message a)
      else if critical_threshold q \<le> p then alert_level a = ''CRITICAL'' \<and> is_critical (alert_message a)
      else warning_threshold q \<le> p \<and> alert_level a = ''WARNING'' \<and> is_warning (alert_message a))"


section \<open>Approval of a pending job (lambda/start\_remediation/main.py)\<close>

text \<open>
  An attribute of a DynamoDB item as boto3's resource API returns it: a number attribute
  is a \<open>decimal.Decimal\<close>, a string attribute a \<open>str\<close>, and so on.
  \<open>json.dumps\<close> serialises strings, booleans and \<open>None\<close>, and raises
  \<open>TypeError\<close> on a \<open>Decimal\<close>.
\<close>

datatype attribute =
    NumberAttr int
  | StringAttr string
  | BoolAttr bool
  | NullAttr

fun json_serializable :: "attribute \<Rightarrow> bool" where
  "json_serializable (NumberAttr n) = False"
| "json_serializable (StringAttr t) = True"
| "json_serializable (BoolAttr b) = True"
| "json_serializable NullAttr = True"

text \<open>
  An item of the pending-jobs table is a dictionary; an absent key is \<open>None\<close>. The
  handler uses \<open>status\<close>, \<open>file_key\<close> and \<open>file_name\<close> as strings and
  passes \<open>estimated_transactions\<close> on as read.
\<close>

record job =
  status :: "string option"
  file_key :: "string option"
  file_name :: "string option"
  estimated_transactions :: "attribute option"
  approved_at :: "string option"

text \<open>
  The state the handler works on: the DynamoDB table of pending jobs, keyed by
  \<open>job_id\<close>, and the objects of the S3 bucket, keyed by object key.
\<close>

record store =
  pending_jobs :: "string \<rightharpoonup> job"
  bucket :: "string \<rightharpoonup> string"

text \<open>
  The conditions of one invocation: the clock, and for each request the handler sends
  whether it raises. The requests are, in the order of the source, \<open>table.get_item\<close>,
  the \<open>table.update_item\<close> that sets \<open>processing\<close>, \<open>s3_client.copy_object\<close>,
  and the \<open>table.update_item\<close> that reverts to \<open>pending_approval\<close>. The text
  \<open>str(e)\<close> of an exception of such a request is not modelled; a fixed string stands
  for it in the response.
\<close>

record env =
  now :: string
  get_item_raises :: bool
  set_processing_raises :: bool
  copy_object_raises :: bool
  revert_raises :: bool

text \<open>
  The event after the parsing at the head of the handler: a body that cannot be parsed
  (\<open>json.loads\<close> raises), or the two values read from the body. \<open>user_approved\<close>
  is modelled by its truth value.
\<close>

datatype event =
    BadBody string
  | Request "string option" bool

datatype response_body =
    ErrorBody string
  | StartedBody string string string attribute

record response =
  statusCode :: nat
  body :: response_body

fun error_message :: "error \<Rightarrow> string" where
  \<comment> \<open>\<open>str(e)\<close>; for a \<open>KeyError\<close> it is the key in single quotes\<close>
  "error_message ZeroDivisionError = ''division by zero''"
| "error_message (KeyError k) = [CHR 0x27] @ k @ [CHR 0x27]"
| "error_message (TypeError m) = m"
| "error_message (ClientError m) = m"
| "error_message (ReadError m) = m"

definition update_status :: "string \<Rightarrow> string \<Rightarrow> string option \<Rightarrow> store \<Rightarrow> store" where
  \<comment> \<open>\<open>table.update_item\<close> with \<open>SET #status = :status\<close> and, when given,
      \<open>approved_at = :timestamp\<close>; the update creates the item when it is missing\<close>
  "update_status job_id new_status stamp s =
     (let old = (case pending_jobs s job_id of
                   None \<Rightarrow> \<lparr>status = None, file_key = None, file_name = None,
                              estimated_transactions = None, approved_at = None\<rparr>
                 | Some j \<Rightarrow> j);
          upd = old\<lparr>status := Some new_status\<rparr>;
          upd' = (case stamp of None \<Rightarrow> upd | Some t \<Rightarrow> upd\<lparr>approved_at := Some t\<rparr>)
      in s\<lparr>pending_jobs := (pending_jobs s)(job_id \<mapsto> upd')\<rparr>)"

definition copy_object :: "env \<Rightarrow> string \<Rightarrow> string \<Rightarrow> store \<Rightarrow> error + store" where
  "copy_object e source_key destination_key s =
     (if copy_object_raises e then Inl (ClientError ''copy_object failed'')
      else (case bucket s source_key of
              None \<Rightarrow> Inl (ClientError ''NoSuchKey'')
            | Some content \<Rightarrow> Inr (s\<lparr>bucket := (bucket s)(destination_key \<mapsto> content)\<rparr>)))"

definition revert_status :: "env \<Rightarrow> string \<Rightarrow> error \<Rightarrow> store \<Rightarrow> response \<times> store" where
  \<comment> \<open>the handler \<open>except Exception as copy_error\<close>; when its own update raises, the
      outer handler answers\<close>
  "revert_status e job_id copy_error s =
     (if revert_raises e
      then (\<lparr>statusCode = 500, body = ErrorBody ''update_item failed''\<rparr>, s)
      else (\<lparr>statusCode = 500,
             body = ErrorBody (''Failed to start processing: '' @ error_message copy_error)\<rparr>,
            update_status job_id ''pending_approval'' None s))"

definition start_processing :: "env \<Rightarrow> string \<Rightarrow> job \<Rightarrow> store \<Rightarrow> response \<times> store" where
  \<comment> \<open>the handler from the line after the update to \<open>processing\<close>: \<open>job\<close> is the
      item as read before the update. A missing \<open>file_key\<close> or \<open>file_name\<close> raises
      outside the inner \<open>try\<close>. The 200 response is built inside it, after the copy: a
      missing \<open>estimated_transactions\<close> raises \<open>KeyError\<close> there, and one that
      \<open>json.dumps\<close> cannot serialise raises \<open>TypeError\<close>; both reach the handler
      that reverts the status\<close>
  "start_processing e job_id job s1 =
     (case file_key job of
        None \<Rightarrow>
          (\<lparr>statusCode = 500, body = ErrorBody (error_message (KeyError ''file_key''))\<rparr>, s1)
      | Some source_key \<Rightarrow>
          (case file_name job of
             None \<Rightarrow>
               (\<lparr>statusCode = 500, body = ErrorBody (error_message (KeyError ''file_name''))\<rparr>, s1)
           | Some name \<Rightarrow>
               (case copy_object e source_key (''pdf/'' @ name) s1 of
                  Inl copy_error \<Rightarrow> revert_status e job_id copy_error s1
                | Inr s2 \<Rightarrow>
                    (case estimated_transactions job of
                       None \<Rightarrow> revert_status e job_id (KeyError ''estimated_transactions'') s2
                     | Some v \<Rightarrow>
                         if json_serializable v then
                           (\<lparr>statusCode = 200,
                             body = StartedBody job_id source_key (''pdf/'' @ name) v\<rparr>, s2)
                         else
                           revert_status e job_id
                             (TypeError ''Object of type Decimal is not JSON serializable'') s2))))"

definition approve :: "env \<Rightarrow> string \<Rightarrow> store \<Rightarrow> response \<times> store" where
  \<comment> \<open>the handler from \<open>table.get_item\<close> on, for a non-empty \<open>job_id\<close> with
      \<open>user_approved\<close> true\<close>
  "approve e job_id s =
     (if get_item_raises e then (\<lparr>statusCode = 500, body = ErrorBody ''get_item failed''\<rparr>, s)
      else
        (case pending_jobs s job_id of
           None \<Rightarrow> (\<lparr>statusCode = 404, body = ErrorBody (''Job '' @ job_id @ '' not found'')\<rparr>, s)
         | Some job \<Rightarrow>
             if status job = Some ''processing'' then
               (\<lparr>statusCode = 409, body = ErrorBody ''Job is already processing''\<rparr>, s)
             else if set_processing_raises e then
               (\<lparr>statusCode = 500, body = ErrorBody ''update_item failed''\<rparr>, s)
             else start_processing e job_id job
                    (update_status job_id ''processing'' (Some (now e)) s)))"

definition lambda_handler :: "env \<Rightarrow> event \<Rightarrow> store \<Rightarrow> response \<times> store" where
  "lambda_handler e ev s =
     (case ev of
        BadBody m \<Rightarrow> (\<lparr>statusCode = 500, body = ErrorBody m\<rparr>, s)
      | Request job_id_opt user_approved \<Rightarrow>
          (case job_id_opt of
             None \<Rightarrow> (\<lparr>statusCode = 400, body = ErrorBody ''job_id is required''\<rparr>, s)
           | Some job_id \<Rightarrow>
               if job_id = [] then
                 (\<lparr>statusCode = 400, body = ErrorBody ''job_id is required''\<rparr>, s)
               else if \<not> user_approved then
                 (\<lparr>statusCode = 400, body = ErrorBody ''user_approved must be true''\<rparr>, s)
               else approve e job_id s))"

subsection \<open>Sample jobs\<close>

definition example_job :: "string \<Rightarrow> job" where
  \<comment> \<open>an item with the attributes that \<open>save_to_dynamodb\<close> sets: the estimate is
      a number\<close>
  "example_job st =
     \<lparr>status = Some st, file_key = Some ''pdf-upload/report.pdf'',
      file_name = Some ''report.pdf'', estimated_transactions = Some (NumberAttr 120),
      approved_at = None\<rparr>"


definition example_store :: "job \<Rightarrow> store" where
  "example_store j =
     \<lparr>pending_jobs = [''report.pdf_1733752800'' \<mapsto> j],
      bucket = [''pdf-upload/report.pdf'' \<mapsto> ''%PDF'']\<rparr>"

definition example_env :: "bool \<Rightarrow> bool \<Rightarrow> env" where
  "example_env copy_fails revert_fails =
     \<lparr>now = ''2025-01-15T10:00:00+00:00'', get_item_raises = False,
      set_processing_raises = False, copy_object_raises = copy_fails,
      revert_raises = revert_fails\<rparr>"

definition job_status :: "store \<Rightarrow> string \<Rightarrow> string option" where
  \<comment> \<open>the \<open>status\<close> attribute of the item stored under a job id\<close>
  "job_status s job_id = (case pending_jobs s job_id of None \<Rightarrow> None | Some j \<Rightarrow> status j)"

section \<open>Cost estimation (lambda/pdf\_analyzer/main.py)\<close>

subsection \<open>Strings\<close>

text \<open>
  A \<open>char\<close> stands for the code point of the same number, so the texts covered are
  those within Latin-1; \<open>length\<close> then counts what Python's \<open>len\<close> counts.
  \<open>isspace\<close> and \<open>isupper\<close> are Python's \<open>str.isspace\<close> and \<open>str.isupper\<close> on
  one such character.
\<close>

definition isspace :: "char \<Rightarrow> bool" where
  "isspace c =
     (let n = (of_char c :: nat)
      in (9 \<le> n \<and> n \<le> 13) \<or> (28 \<le> n \<and> n \<le> 32) \<or> n = 133 \<or> n = 160)"

definition isupper :: "char \<Rightarrow> bool" where
  "isupper c =
     (let n = (of_char c :: nat)
      in (65 \<le> n \<and> n \<le> 90) \<or> (192 \<le> n \<and> n \<le> 214) \<or> (216 \<le> n \<and> n \<le> 222))"

definition strip :: "string \<Rightarrow> string" where
  "strip s = rev (dropWhile isspace (rev (dropWhile isspace s)))"

fun split_on :: "char \<Rightarrow> string \<Rightarrow> string list" where
  "split_on c [] = [[]]"
| "split_on c (x # xs) =
     (if x = c then [] # split_on c xs
      else (case split_on c xs of
              [] \<Rightarrow> [[x]]
            | l # ls \<Rightarrow> (x # l) # ls))"

fun count_double_space :: "string \<Rightarrow> nat" where
  \<comment> \<open>\<open>line.count('  ')\<close>: occurrences that do not overlap, from the left\<close>
  "count_double_space (a # b # xs) =
     (if a = CHR '' '' \<and> b = CHR '' '' then Suc (count_double_space xs)
      else count_double_space (b # xs))"
| "count_double_space _ = 0"

fun basename :: "string \<Rightarrow> string" where
  \<comment> \<open>\<open>os.path.basename\<close>: what follows the last slash\<close>
  "basename [] = []"
| "basename (x # xs) = (if CHR ''/'' \<in> set (x # xs) then basename xs else x # xs)"

subsection \<open>Pages\<close>

text \<open>
  What the estimator reads from a PyPDF2 page: the result of \<open>page.extract_text()\<close>
  (which may raise), and \<open>page['/Resources']\<close>. The resources are \<open>None\<close> when the
  page has no such key; otherwise they hold, when there is an \<open>/XObject\<close> entry, the
  \<open>/Subtype\<close> of each of its objects (\<open>None\<close> for an object without one).
\<close>

record page =
  extract_text :: "error + string"
  resources :: "string option list option option"

definition line_elements :: "string \<Rightarrow> int" where
  \<comment> \<open>the body of the loop over \<open>lines\<close>\<close>
  "line_elements line =
     (let stripped = strip line
      in if stripped \<noteq> [] then
           (if length stripped < 100 \<and> isupper (hd stripped) then 1 else 0) + 1
         else 0)"

definition table_indicator :: "string \<Rightarrow> bool" where
  "table_indicator line \<longleftrightarrow> 3 \<le> count_double_space line \<or> CHR 0x09 \<in> set line"

definition count_elements :: "page \<Rightarrow> error + int" where
  \<comment> \<open>the body of the \<open>try\<close> of \<open>estimate_elements_from_page\<close>\<close>
  "count_elements p =
     (case extract_text p of
        Inl e \<Rightarrow> Inl e
      | Inr text \<Rightarrow>
          let lines = split_on (CHR 0x0A) text;
              elements = sum_list (map line_elements lines);
              table_indicators = int (length (filter table_indicator lines));
              elements = elements + table_indicators * 2
          in (case resources p of
                None \<Rightarrow> Inl (KeyError ''/Resources'')
              | Some None \<Rightarrow> Inr (max elements 5)
              | Some (Some subtypes) \<Rightarrow>
                  if None \<in> set subtypes then Inl (KeyError ''/Subtype'')
                  else
                    let images = filter (\<lambda>t. t = Some ''/Image'') subtypes
                    in Inr (max (elements + int (length images) * 2) 5)))"

definition estimate_elements_from_page :: "page \<Rightarrow> int" where
  "estimate_elements_from_page p = (case count_elements p of Inl _ \<Rightarrow> 10 | Inr n \<Rightarrow> n)"

subsection \<open>Documents\<close>

text \<open>
  A document as \<open>PdfReader\<close> presents it: its pages, the size of the file, and the
  \<open>/Title\<close> of its metadata. \<open>analyze_pdf\<close> receives it or the exception raised by the
  download or by \<open>PdfReader\<close>.
\<close>

record pdf_document =
  pdf_pages :: "page list"
  pdf_size_bytes :: int
  pdf_title :: "string option"

record analysis =
  analysis_file_key :: string
  analysis_file_name :: string
  file_size_bytes :: int
  file_size_mb :: rat
  num_pages :: nat
  estimated_elements :: int
  avg_elements_per_page :: rat
  estimated_adobe_transactions :: int
  estimated_cost_percentage :: rat
  analysis_pdf_title :: string
  analysis_timestamp :: string
  analysis_status :: string
  complexity :: string

definition classify_complexity :: "rat \<Rightarrow> string" where
  "classify_complexity avg_elements =
     (if avg_elements < 5 then ''simple''
      else if avg_elements < 10 then ''moderate''
      else if avg_elements < 20 then ''complex''
      else ''very_complex'')"

fun sum_page_elements :: "page list \<Rightarrow> nat \<Rightarrow> int" where
  \<comment> \<open>\<open>total_elements\<close> after the iterations \<open>i = 0, ..., n - 1\<close> of the loop
      \<open>for i in range(sample_size)\<close>; the index stays below the number of pages\<close>
  "sum_page_elements pages 0 = 0"
| "sum_page_elements pages (Suc i) =
     sum_page_elements pages i + estimate_elements_from_page (pages ! i)"

definition total_elements :: "pdf_document \<Rightarrow> int" where
  "total_elements doc = sum_page_elements (pdf_pages doc) (min (length (pdf_pages doc)) 10)"

definition analyze_pdf :: "string \<Rightarrow> string \<Rightarrow> error + pdf_document \<Rightarrow> error + analysis" where
  "analyze_pdf stamp key pdf =
     (case pdf of
        Inl e \<Rightarrow> Inl e
      | Inr doc \<Rightarrow>
          let pages = length (pdf_pages doc);
              sample_size = min pages 10
          in (case truediv (total_elements doc) (int sample_size) of
                Inl e \<Rightarrow> Inl e
              | Inr avg \<Rightarrow>
                  let estimated_total_elements = py_int (float_mul avg (float_of_int (int pages)));
                      estimated_transactions = estimated_total_elements
                  in Inr \<lparr>analysis_file_key = key,
                          analysis_file_name = basename key,
                          file_size_bytes = pdf_size_bytes doc,
                          file_size_mb =
                            py_round (to_double (of_int (pdf_size_bytes doc) / (1024 * 1024))) 2,
                          num_pages = pages,
                          estimated_elements = estimated_total_elements,
                          avg_elements_per_page = py_round avg 1,
                          estimated_adobe_transactions = estimated_transactions,
                          estimated_cost_percentage =
                            py_round (float_mul (to_double (of_int estimated_transactions / 25000)) 100) 2,
                          analysis_pdf_title =
                            (case pdf_title doc of None \<Rightarrow> ''Unknown'' | Some t \<Rightarrow> t),
                          analysis_timestamp = stamp,
                          analysis_status = ''analyzed'',
                          complexity = classify_complexity avg\<rparr>))"

subsection \<open>Sample documents\<close>

definition example_page :: page where
  \<comment> \<open>three short capitalised lines, no table, no images: 6 elements\<close>
  "example_page =
     \<lparr>extract_text = Inr (''Annual report'' @ [CHR 0x0A] @ ''Summary'' @ [CHR 0x0A] @ ''Results''),
      resources = Some None\<rparr>"

definition corrupt_page :: page where
  "corrupt_page = \<lparr>extract_text = Inl (ReadError ''bad content stream''), resources = None\<rparr>"

definition example_document :: "page list \<Rightarrow> pdf_document" where
  "example_document ps = \<lparr>pdf_pages = ps, pdf_size_bytes = 2048, pdf_title = Some ''Report''\<rparr>"

section \<open>The workflow definition (app.py)\<close>

text \<open>
  The Step Functions definition that \<open>app.py\<close> builds, as a value: a task state, a
  \<open>Map\<close> state with its \<open>max_concurrency\<close> and iterator, a \<open>Parallel\<close> state with
  its branches. A chain built with \<open>.next\<close> is the list of its states.
\<close>

datatype state =
    Task string
  | Map string nat "state list"
  | Parallel string "state list list"

definition ecs_task_1 :: state where
  "ecs_task_1 = Task ''ECS RunTask''"

definition ecs_task_2 :: state where
  "ecs_task_2 = Task ''ECS RunTask (1)''"

definition map_state :: state where
  \<comment> \<open>\<open>sfn.Map(..., max_concurrency=100)\<close> with \<open>iterator(ecs_task_1.next(ecs_task_2))\<close>\<close>
  "map_state = Map ''Map'' 100 [ecs_task_1, ecs_task_2]"

definition java_lambda_task :: state where
  "java_lambda_task = Task ''Invoke Java Lambda''"

definition add_title_lambda_task :: state where
  "add_title_lambda_task = Task ''Invoke Add Title Lambda''"

definition a11y_precheck_lambda_task :: state where
  "a11y_precheck_lambda_task = Task ''a11y_precheck''"

definition a11y_postcheck_lambda_task :: state where
  "a11y_postcheck_lambda_task = Task ''a11y_postcheck''"

definition chain :: "state list" where
  \<comment> \<open>\<open>map_state.next(java_lambda_task).next(add_title_lambda_task).next(a11y_postcheck_lambda_task)\<close>\<close>
  "chain = [map_state, java_lambda_task, add_title_lambda_task, a11y_postcheck_lambda_task]"

definition parallel_state :: state where
  \<comment> \<open>\<open>parallel_state.branch(chain)\<close>, then \<open>parallel_state.branch(a11y_precheck_lambda_task)\<close>\<close>
  "parallel_state = Parallel ''ParallelState'' [chain, [a11y_precheck_lambda_task]]"

definition state_machine :: "state list" where
  \<comment> \<open>\<open>sfn.StateMachine(..., definition=parallel_state)\<close>: nothing follows the
      \<open>Parallel\<close> state\<close>
  "state_machine = [parallel_state]"

subsection \<open>Executions\<close>

text \<open>
  The workflow engine is not part of the repository; its rules for the three kinds of
  state are those of the Amazon States Language. A task is entered and exited. The states
  of a chain run one after the other. A \<open>Parallel\<close> state is entered, runs one execution
  of each branch, interleaved in any way, and is exited when all of them are done. A
  \<open>Map\<close> state does the same with one execution of its iterator per item; its
  \<open>max_concurrency\<close> only excludes interleavings, so the runs below include all that
  the engine can produce, and all of them when the items are at most \<open>max_concurrency\<close>.
  The runs are those of executions in which every state succeeds; the history of a failed
  execution is a prefix of one.
\<close>

datatype history_event = Entered string | Exited string

fun shuffle_copies :: "nat \<Rightarrow> 'a list set \<Rightarrow> 'a list set" where
  "shuffle_copies 0 A = {[]}"
| "shuffle_copies (Suc n) A = (\<Union>a\<in>A. \<Union>t\<in>shuffle_copies n A. shuffles a t)"

fun runs :: "nat \<Rightarrow> state \<Rightarrow> history_event list set"
  and runs_chain :: "nat \<Rightarrow> state list \<Rightarrow> history_event list set"
  and runs_branches :: "nat \<Rightarrow> state list list \<Rightarrow> history_event list set"
where
  "runs items (Task name) = {[Entered name, Exited name]}"
| "runs items (Map name k iterator) =
     (\<lambda>t. Entered name # t @ [Exited name]) ` shuffle_copies items (runs_chain items iterator)"
| "runs items (Parallel name branches) =
     (\<lambda>t. Entered name # t @ [Exited name]) ` runs_branches items branches"
| "runs_chain items [] = {[]}"
| "runs_chain items (s # ss) = (\<Union>a\<in>runs items s. \<Union>b\<in>runs_chain items ss. {a @ b})"
| "runs_branches items [] = {[]}"
| "runs_branches items (b # bs) =
     (\<Union>a\<in>runs_chain items b. \<Union>t\<in>runs_branches items bs. shuffles a t)"

definition starts_after :: "history_event \<Rightarrow> history_event \<Rightarrow> history_event list \<Rightarrow> bool" where
  \<comment> \<open>in the history \<open>h\<close>, \<open>b\<close> does not occur unless \<open>a\<close> occurs before it\<close>
  "starts_after b a h \<longleftrightarrow> b \<notin> set h \<or> a \<in> set (takeWhile (\<lambda>x. x \<noteq> b) h)"

definition sequential_run :: "history_event list" where
  \<comment> \<open>an execution on one chunk in which the main branch runs to its end before the
      pre-check starts\<close>
  "sequential_run =
     [Entered ''ParallelState'',
      Entered ''Map'', Entered ''ECS RunTask'', Exited ''ECS RunTask'',
      Entered ''ECS RunTask (1)'', Exited ''ECS RunTask (1)'', Exited ''Map'',
      Entered ''Invoke Java Lambda'', Exited ''Invoke Java Lambda'',
      Entered ''Invoke Add Title Lambda'', Exited ''Invoke Add Title Lambda'',
      Entered ''a11y_postcheck'', Exited ''a11y_postcheck'',
      Entered ''a11y_precheck'', Exited ''a11y_precheck'',
      Exited ''ParallelState'']"

definition main_branch_tail :: "history_event list" where
  \<comment> \<open>the events of the main branch from the end of the \<open>Map\<close> state on\<close>
  "main_branch_tail =
     [Exited ''Map'',
      Entered ''Invoke Java Lambda'', Exited ''Invoke Java Lambda'',
      Entered ''Invoke Add Title Lambda'', Exited ''Invoke Add Title Lambda'',
      Entered ''a11y_postcheck'', Exited ''a11y_postcheck'']"


section \<open>Properties of the quota monitor\<close>

lemma only_metrics_refl: "only_metrics w w"
  unfolding only_metrics_def by (rule exI[of _ "[]"]) simp

lemma only_metrics_trans: "only_metrics a b \<Longrightarrow> only_metrics b c \<Longrightarrow> only_metrics a c"
  unfolding only_metrics_def by (elim exE, rule_tac x="ms @ msa" in exI) simp

lemma only_metrics_fields:
  "only_metrics w w' \<Longrightarrow> usage_items w' = usage_items w \<and> published_alerts w' = published_alerts w
     \<and> dynamodb_up w' = dynamodb_up w \<and> sns_up w' = sns_up w \<and> cloudwatch_up w' = cloudwatch_up w
     \<and> period_key w' = period_key w \<and> timestamp w' = timestamp w"
  unfolding only_metrics_def by auto

lemma put_metric_only: "only_metrics w (snd (put_metric q n v u d w))"
  unfolding only_metrics_def put_metric_def by (auto intro: exI[of _ "[]"])

lemma put_api_call_metric_only: "only_metrics w (snd (put_api_call_metric q a s operation w))"
  unfolding put_api_call_metric_def Let_def
  by (auto simp: split_beta intro: only_metrics_trans[OF put_metric_only put_metric_only])

lemma put_error_metric_only: "only_metrics w (snd (put_error_metric q a t operation w))"
  unfolding put_error_metric_def Let_def by (rule put_metric_only)

lemma put_quota_usage_metric_only: "only_metrics w (snd (put_quota_usage_metric q a u l w))"
  unfolding put_quota_usage_metric_def Let_def
  by (auto simp: split_beta intro: only_metrics_trans[OF put_metric_only put_metric_only])

lemma publish_call_metrics_only: "only_metrics w (publish_call_metrics q operation succ et w)"
  unfolding publish_call_metrics_def Let_def
  by (auto split: option.splits intro: put_api_call_metric_only
        only_metrics_trans[OF put_api_call_metric_only put_error_metric_only])

lemma send_alert_cases:
  "send_alert q level message usage percentage w = (sent, w') \<Longrightarrow>
     (\<not> sent \<and> w' = w) \<or>
     (sent \<and> (\<exists>arn. w' = w\<lparr>published_alerts := published_alerts w @
         [\<lparr>alert_topic = arn, alert_level = level, alert_message = message,
           alert_action_required = (1 \<le> percentage)\<rparr>]\<rparr>))"
  unfolding send_alert_def by (auto split: option.splits if_splits)

lemma check_thresholds_alerts:
  assumes "check_thresholds q usage limit result0 w = (r, w')" and "\<not> alert_sent result0"
  shows "\<exists>new. published_alerts w' = published_alerts w @ new \<and> length new \<le> 1 \<and>
           (alert_sent r \<longleftrightarrow> new \<noteq> []) \<and> (\<forall>a\<in>set new. expected_alert q (usage_percentage r) a)"
proof -
  let ?p = "to_double (of_int usage / of_int limit)"
  let ?w4 = "snd (put_quota_usage_metric q (api_name q) usage limit w)"
  have w4: "published_alerts ?w4 = published_alerts w"
    using only_metrics_fields[OF put_quota_usage_metric_only] by blast
  consider (ex) "1 \<le> ?p" | (cr) "\<not> 1 \<le> ?p" "critical_threshold q \<le> ?p"
    | (wa) "\<not> 1 \<le> ?p" "\<not> critical_threshold q \<le> ?p" "warning_threshold q \<le> ?p"
    | (no) "\<not> 1 \<le> ?p" "\<not> critical_threshold q \<le> ?p" "\<not> warning_threshold q \<le> ?p"
    by blast
  then show ?thesis
  proof cases
    case ex
    obtain sent w5 where sa: "send_alert q ''CRITICAL'' (QuotaExceededMessage (api_name q) usage limit) usage ?p ?w4 = (sent, w5)"
      by (cases "send_alert q ''CRITICAL'' (QuotaExceededMessage (api_name q) usage limit) usage ?p ?w4")
    from assms(1) ex sa have r: "r = result0\<lparr>usage_percentage := ?p, quota_exceeded := True, alert_sent := sent\<rparr>" "w' = w5"
      by (auto simp: check_thresholds_def Let_def)
    from send_alert_cases[OF sa] show ?thesis
    proof
      assume "\<not> sent \<and> w5 = ?w4"
      then show ?thesis using r w4 by (intro exI[of _ "[]"]) simp
    next
      assume "sent \<and> (\<exists>arn. w5 = ?w4\<lparr>published_alerts := published_alerts ?w4 @
         [\<lparr>alert_topic = arn, alert_level = ''CRITICAL'', alert_message = QuotaExceededMessage (api_name q) usage limit,
           alert_action_required = (1 \<le> ?p)\<rparr>]\<rparr>)"
      then obtain arn where "sent" and w5: "w5 = ?w4\<lparr>published_alerts := published_alerts ?w4 @
         [\<lparr>alert_topic = arn, alert_level = ''CRITICAL'', alert_message = QuotaExceededMessage (api_name q) usage limit,
           alert_action_required = (1 \<le> ?p)\<rparr>]\<rparr>" by blast
      show ?thesis
        using r w4 w5 \<open>sent\<close> ex
        by (intro exI[of _ "[\<lparr>alert_topic = arn, alert_level = ''CRITICAL'', alert_message = QuotaExceededMessage (api_name q) usage limit,
           alert_action_required = (1 \<le> ?p)\<rparr>]"]) (simp add: expected_alert_def)
    qed
  next
    case cr
    obtain sent w5 where sa: "send_alert q ''CRITICAL'' (CriticalMessage (api_name q) ?p usage limit) usage ?p ?w4 = (sent, w5)"
      by (cases "send_alert q ''CRITICAL'' (CriticalMessage (api_name q) ?p usage limit) usage ?p ?w4")
    from assms(1) cr sa have r: "r = result0\<lparr>usage_percentage := ?p, alert_sent := sent\<rparr>" "w' = w5"
      by (auto simp: check_thresholds_def Let_def)
    from send_alert_cases[OF sa] show ?thesis
    proof
      assume "\<not> sent \<and> w5 = ?w4"
      then show ?thesis using r w4 by (intro exI[of _ "[]"]) simp
    next
      assume "sent \<and> (\<exists>arn. w5 = ?w4\<lparr>published_alerts := published_alerts ?w4 @
         [\<lparr>alert_topic = arn, alert_level = ''CRITICAL'', alert_message = CriticalMessage (api_name q) ?p usage limit,
           alert_action_required = (1 \<le> ?p)\<rparr>]\<rparr>)"
      then obtain arn where "sent" and w5: "w5 = ?w4\<lparr>published_alerts := published_alerts ?w4 @
         [\<lparr>alert_topic = arn, alert_level = ''CRITICAL'', alert_message = CriticalMessage (api_name q) ?p usage limit,
           alert_action_required = (1 \<le> ?p)\<rparr>]\<rparr>" by blast
      show ?thesis
        using r w4 w5 \<open>sent\<close> cr
        by (intro exI[of _ "[\<lparr>alert_topic = arn, alert_level = ''CRITICAL'', alert_message = CriticalMessage (api_name q) ?p usage limit,
           alert_action_required = (1 \<le> ?p)\<rparr>]"]) (simp add: expected_alert_def)
    qed
  next
    case wa
    obtain sent w5 where sa: "send_alert q ''WARNING'' (WarningMessage (api_name q) ?p usage limit) usage ?p ?w4 = (sent, w5)"
      by (cases "send_alert q ''WARNING'' (WarningMessage (api_name q) ?p usage limit) usage ?p ?w4")
    from assms(1) wa sa have r: "r = result0\<lparr>usage_percentage := ?p, alert_sent := sent\<rparr>" "w' = w5"
      by (auto simp: check_thresholds_def Let_def)
    from send_alert_cases[OF sa] show ?thesis
    proof
      assume "\<not> sent \<and> w5 = ?w4"
      then show ?thesis using r w4 by (intro exI[of _ "[]"]) simp
    next
      assume "sent \<and> (\<exists>arn. w5 = ?w4\<lparr>published_alerts := published_alerts ?w4 @
         [\<lparr>alert_topic = arn, alert_level = ''WARNING'', alert_message = WarningMessage (api_name q) ?p usage limit,
           alert_action_required = (1 \<le> ?p)\<rparr>]\<rparr>)"
      then obtain arn where "sent" and w5: "w5 = ?w4\<lparr>published_alerts := published_alerts ?w4 @
         [\<lparr>alert_topic = arn, alert_level = ''WARNING'', alert_message = WarningMessage (api_name q) ?p usage limit,
           alert_action_required = (1 \<le> ?p)\<rparr>]\<rparr>" by blast
      show ?thesis
        using r w4 w5 \<open>sent\<close> wa
        by (intro exI[of _ "[\<lparr>alert_topic = arn, alert_level = ''WARNING'', alert_message = WarningMessage (api_name q) ?p usage limit,
           alert_action_required = (1 \<le> ?p)\<rparr>]"]) (simp add: expected_alert_def)
    qed
  next
    case no
    from assms(1) no have "r = result0\<lparr>usage_percentage := ?p\<rparr>" "w' = ?w4"
      by (auto simp: check_thresholds_def Let_def)
    then show ?thesis using w4 assms(2) by (intro exI[of _ "[]"]) simp
  qed
qed

lemma increment_usage_counter_alerts:
  "increment_usage_counter q operation w = (u, w') \<Longrightarrow>
     published_alerts w' = published_alerts w \<and> published_metrics w' = published_metrics w"
  unfolding increment_usage_counter_def by (auto simp: Let_def split: if_splits)

lemma increment_usage_counter_down:
  "\<not> usage_table q \<or> \<not> dynamodb_up w \<Longrightarrow> increment_usage_counter q operation w = (0, w)"
  unfolding increment_usage_counter_def by auto

lemma to_double_0: "to_double 0 = 0"
  by (simp add: to_double_def)

lemma check_thresholds_frame:
  assumes "check_thresholds q usage limit result0 w = (r, w')"
  shows "usage_items w' = usage_items w \<and> (\<exists>ms. published_metrics w' = published_metrics w @ ms)
       \<and> usage_count r = usage_count result0 \<and> success r = success result0
       \<and> usage_percentage r = to_double (of_int usage / of_int limit)
       \<and> (quota_exceeded r \<longleftrightarrow> quota_exceeded result0 \<or> 1 \<le> to_double (of_int usage / of_int limit))"
proof -
  let ?w4 = "snd (put_quota_usage_metric q (api_name q) usage limit w)"
  from put_quota_usage_metric_only[of w q "api_name q" usage limit]
  obtain ms where w4: "?w4 = w\<lparr>published_metrics := published_metrics w @ ms\<rparr>"
    unfolding only_metrics_def by blast
  have a: "usage_items w5 = usage_items w \<and> published_metrics w5 = published_metrics w @ ms"
    if "send_alert q level message usage p (w\<lparr>published_metrics := published_metrics w @ ms\<rparr>) = (sent, w5)"
    for level message p sent w5
    using send_alert_cases[OF that] by auto
  from assms show ?thesis
    unfolding check_thresholds_def Let_def
    by (auto split: if_splits prod.splits dest: a simp: w4)
qed

text \<open>
  Claim C2. A single call of \<open>track_api_call\<close> on a monitor with a quota limit
  \<open>L > 0\<close> and the constructor's thresholds (0.8 and 0.95) publishes at most one alert,
  and \<open>alert_sent\<close> tells whether it did. The alert is chosen by the resulting
  \<open>usage_percentage\<close>, highest threshold first: from 100 percent on it is the
  quota-exceeded \<open>CRITICAL\<close> alert, otherwise from 95 percent on the \<open>CRITICAL\<close>
  alert, otherwise it is the \<open>WARNING\<close> alert and the percentage is at least 80
  percent. So a call at 95 percent or more never publishes \<open>WARNING\<close>. The
  percentage is the float \<open>usage_count / quota_limit\<close> of the report, and 0.8 and
  0.95 are the floats of these literals.
\<close>

theorem track_api_call_single_alert:
  assumes "quota_limit q = Some L" and "0 < L" and "default_thresholds q"
    and "track_api_call q operation succ error_type w = (r, w')"
  shows "(\<exists>new. published_alerts w' = published_alerts w @ new \<and> length new \<le> 1 \<and>
     (alert_sent r \<longleftrightarrow> new \<noteq> []) \<and>
     (\<forall>a\<in>set new.
        (if 1 \<le> usage_percentage r
           then alert_level a = ''CRITICAL'' \<and> is_exceeded (alert_message a)
         else if to_double (19 / 20) \<le> usage_percentage r
           then alert_level a = ''CRITICAL'' \<and> is_critical (alert_message a)
         else to_double (4 / 5) \<le> usage_percentage r
              \<and> alert_level a = ''WARNING'' \<and> is_warning (alert_message a))))
     \<and> (succ \<and> usage_table q \<longrightarrow>
           usage_percentage r = to_double (of_int (usage_count r) / of_int L))"
proof -
  let ?w2 = "publish_call_metrics q operation succ error_type w"
  have w2: "published_alerts ?w2 = published_alerts w"
    using only_metrics_fields[OF publish_call_metrics_only] by blast
  show ?thesis
  proof (cases "succ \<and> usage_table q")
    case False
    with assms(4) have "r = initial_report q succ" "w' = ?w2"
      by (auto simp: track_api_call_def Let_def)
    then have "\<exists>new. published_alerts w' = published_alerts w @ new \<and> length new \<le> 1 \<and>
       (alert_sent r \<longleftrightarrow> new \<noteq> []) \<and>
       (\<forall>a\<in>set new.
          (if 1 \<le> usage_percentage r
             then alert_level a = ''CRITICAL'' \<and> is_exceeded (alert_message a)
           else if to_double (19 / 20) \<le> usage_percentage r
             then alert_level a = ''CRITICAL'' \<and> is_critical (alert_message a)
           else to_double (4 / 5) \<le> usage_percentage r
                \<and> alert_level a = ''WARNING'' \<and> is_warning (alert_message a)))"
      using w2 by (intro exI[of _ "[]"]) (simp add: initial_report_def)
    with False show ?thesis by blast
  next
    case True
    obtain usage w3 where inc: "increment_usage_counter q operation ?w2 = (usage, w3)"
      by (cases "increment_usage_counter q operation ?w2")
    have w3: "published_alerts w3 = published_alerts w"
      using increment_usage_counter_alerts[OF inc] w2 by simp
    from assms(1,2,4) True inc
    have ct: "check_thresholds q usage L ((initial_report q succ)\<lparr>usage_count := usage\<rparr>) w3 = (r, w')"
      by (simp add: track_api_call_def Let_def)
    have "\<not> alert_sent ((initial_report q succ)\<lparr>usage_count := usage\<rparr>)"
      by (simp add: initial_report_def)
    from check_thresholds_alerts[OF ct this]
    have *: "\<exists>new. published_alerts w' = published_alerts w3 @ new \<and> length new \<le> 1 \<and>
           (alert_sent r \<longleftrightarrow> new \<noteq> []) \<and> (\<forall>a\<in>set new. expected_alert q (usage_percentage r) a)" .
    from assms(3) have th: "critical_threshold q = to_double (19 / 20)" "warning_threshold q = to_double (4 / 5)"
      by (simp_all add: default_thresholds_def)
    from check_thresholds_frame[OF ct]
    have "usage_percentage r = to_double (of_int (usage_count r) / of_int L)" by simp
    moreover from * have "\<exists>new. published_alerts w' = published_alerts w @ new \<and> length new \<le> 1 \<and>
       (alert_sent r \<longleftrightarrow> new \<noteq> []) \<and>
       (\<forall>a\<in>set new.
          (if 1 \<le> usage_percentage r
             then alert_level a = ''CRITICAL'' \<and> is_exceeded (alert_message a)
           else if to_double (19 / 20) \<le> usage_percentage r
             then alert_level a = ''CRITICAL'' \<and> is_critical (alert_message a)
           else to_double (4 / 5) \<le> usage_percentage r
                \<and> alert_level a = ''WARNING'' \<and> is_warning (alert_message a)))"
      unfolding expected_alert_def th w3 .
    ultimately show ?thesis by blast
  qed
qed

text \<open>
  Claim C5. A call of \<open>track_api_call\<close> with \<open>success=False\<close> leaves the usage
  table as it was and reports \<open>usage_count = 0\<close>; the usage table changes only in a
  call with \<open>success=True\<close>. (The admission check \<open>check_quota_available\<close> only
  reads: it returns a truth value and no new state.)
\<close>

theorem track_api_call_failed_call_no_increment:
  assumes "track_api_call q operation succ error_type w = (r, w')"
  shows "(\<not> succ \<longrightarrow> usage_items w' = usage_items w \<and> usage_count r = 0)
       \<and> (usage_items w' \<noteq> usage_items w \<longrightarrow> succ)"
proof -
  let ?w2 = "publish_call_metrics q operation succ error_type w"
  have w2: "usage_items ?w2 = usage_items w"
    using only_metrics_fields[OF publish_call_metrics_only] by blast
  have "usage_items w' = usage_items w \<and> usage_count r = 0" if "\<not> succ"
  proof -
    from assms that have "r = initial_report q succ" "w' = ?w2"
      by (auto simp: track_api_call_def Let_def)
    then show ?thesis using w2 by (simp add: initial_report_def)
  qed
  then show ?thesis by blast
qed

lemma publish_call_metrics_names:
  assumes "cloudwatch q" and "cloudwatch_up w"
  shows "map metric_name (published_metrics (publish_call_metrics q operation succ error_type w)) =
           map metric_name (published_metrics w) @ [''APICallCount'', ''APICallStatus'']
           @ (case error_type of None \<Rightarrow> [] | Some t \<Rightarrow> if t \<noteq> [] then [''APIError''] else [])"
  using assms
  by (simp add: publish_call_metrics_def put_api_call_metric_def put_error_metric_def
        put_metric_def Let_def split: option.splits)

lemma put_quota_usage_metric_zero:
  assumes "0 < limit"
  shows "published_metrics (snd (put_quota_usage_metric q api 0 limit w)) =
           published_metrics w @
           (if cloudwatch q \<and> cloudwatch_up w
            then [\<lparr>metric_name = ''QuotaUsage'', metric_value = 0, metric_unit = ''Count'',
                    metric_dimensions = [(''APIName'', api), (''Period'', ''Monthly'')]\<rparr>,
                  \<lparr>metric_name = ''QuotaUsagePercentage'', metric_value = 0, metric_unit = ''Percent'',
                    metric_dimensions = [(''APIName'', api), (''Period'', ''Monthly'')]\<rparr>]
            else [])"
  using assms
  by (simp add: put_quota_usage_metric_def put_metric_def float_of_int_def float_mul_def
        to_double_0 Let_def)

lemma check_thresholds_metrics:
  assumes "check_thresholds q usage limit result0 w = (r, w')"
  shows "published_metrics w' =
           published_metrics (snd (put_quota_usage_metric q (api_name q) usage limit w))"
proof -
  have a: "published_metrics w5 = published_metrics w4"
    if "send_alert q level message usage p w4 = (sent, w5)" for level message p sent w4 w5
    using send_alert_cases[OF that] by auto
  from assms show ?thesis
    unfolding check_thresholds_def Let_def
    by (auto split: if_splits prod.splits dest: a)
qed

lemma check_thresholds_quiet_at_zero:
  assumes "check_thresholds q 0 limit result0 w = (r, w')"
    and "0 < warning_threshold q" and "0 < critical_threshold q"
  shows "alert_sent r = alert_sent result0 \<and> published_alerts w' = published_alerts w"
proof -
  have "published_alerts (snd (put_quota_usage_metric q (api_name q) 0 limit w)) = published_alerts w"
    using only_metrics_fields[OF put_quota_usage_metric_only] by blast
  with assms show ?thesis
    by (auto simp: check_thresholds_def Let_def to_double_0)
qed

text \<open>
  Claim C6 (as amended). When the usage ledger is unavailable (the monitor has no usage
  table, or the request to DynamoDB fails), \<open>track_api_call\<close> still returns a report,
  leaves the usage table untouched, and publishes the metrics of \<open>put_api_call_metric\<close>
  and, for a non-empty \<open>error_type\<close>, of \<open>put_error_metric\<close> as in any other call:
  with CloudWatch reachable, \<open>APICallCount\<close>, \<open>APICallStatus\<close> and then
  \<open>APIError\<close>. The usage fields of the report are not marked: they are
  \<open>usage_count = 0\<close>, \<open>usage_percentage = 0\<close> and \<open>quota_exceeded = False\<close>,
  the values of a reading of zero. Where the increment was attempted and failed on a
  monitor with a limit \<open>L > 0\<close>, this zero is also published as the metrics
  \<open>QuotaUsage = 0\<close> and \<open>QuotaUsagePercentage = 0\<close>; no other metric is added. With
  positive thresholds no alert is sent.
\<close>

theorem track_api_call_ledger_unavailable:
  assumes "\<not> usage_table q \<or> \<not> dynamodb_up w"
    and "track_api_call q operation succ error_type w = (r, w')"
  shows "success r = succ \<and> usage_count r = 0 \<and> usage_percentage r = 0 \<and> \<not> quota_exceeded r
       \<and> usage_items w' = usage_items w
       \<and> published_metrics w' =
           published_metrics (publish_call_metrics q operation succ error_type w) @
           (if succ \<and> usage_table q \<and> (\<exists>limit. quota_limit q = Some limit \<and> 0 < limit)
               \<and> cloudwatch q \<and> cloudwatch_up w
            then [\<lparr>metric_name = ''QuotaUsage'', metric_value = 0, metric_unit = ''Count'',
                    metric_dimensions = [(''APIName'', api_name q), (''Period'', ''Monthly'')]\<rparr>,
                  \<lparr>metric_name = ''QuotaUsagePercentage'', metric_value = 0, metric_unit = ''Percent'',
                    metric_dimensions = [(''APIName'', api_name q), (''Period'', ''Monthly'')]\<rparr>]
            else [])
       \<and> (cloudwatch q \<and> cloudwatch_up w \<longrightarrow>
            map metric_name (published_metrics (publish_call_metrics q operation succ error_type w)) =
               map metric_name (published_metrics w) @ [''APICallCount'', ''APICallStatus'']
               @ (case error_type of None \<Rightarrow> [] | Some t \<Rightarrow> if t \<noteq> [] then [''APIError''] else []))
       \<and> (0 < warning_threshold q \<and> 0 < critical_threshold q \<longrightarrow>
            \<not> alert_sent r \<and> published_alerts w' = published_alerts w)"
proof -
  let ?w2 = "publish_call_metrics q operation succ error_type w"
  let ?zero = "[\<lparr>metric_name = ''QuotaUsage'', metric_value = 0, metric_unit = ''Count'',
                    metric_dimensions = [(''APIName'', api_name q), (''Period'', ''Monthly'')]\<rparr>,
                  \<lparr>metric_name = ''QuotaUsagePercentage'', metric_value = 0, metric_unit = ''Percent'',
                    metric_dimensions = [(''APIName'', api_name q), (''Period'', ''Monthly'')]\<rparr>]"
  have w2: "usage_items ?w2 = usage_items w" "dynamodb_up ?w2 = dynamodb_up w"
    "cloudwatch_up ?w2 = cloudwatch_up w" "published_alerts ?w2 = published_alerts w"
    using only_metrics_fields[OF publish_call_metrics_only] by blast+
  have names: "cloudwatch q \<and> cloudwatch_up w \<longrightarrow>
            map metric_name (published_metrics ?w2) =
               map metric_name (published_metrics w) @ [''APICallCount'', ''APICallStatus'']
               @ (case error_type of None \<Rightarrow> [] | Some t \<Rightarrow> if t \<noteq> [] then [''APIError''] else [])"
    using publish_call_metrics_names by blast
  have main: "success r = succ \<and> usage_count r = 0 \<and> usage_percentage r = 0 \<and> \<not> quota_exceeded r
       \<and> usage_items w' = usage_items w
       \<and> published_metrics w' = published_metrics ?w2 @
           (if succ \<and> usage_table q \<and> (\<exists>limit. quota_limit q = Some limit \<and> 0 < limit)
               \<and> cloudwatch q \<and> cloudwatch_up w then ?zero else [])
       \<and> (0 < warning_threshold q \<and> 0 < critical_threshold q \<longrightarrow>
            \<not> alert_sent r \<and> published_alerts w' = published_alerts w)"
  proof (cases "succ \<and> usage_table q")
    case False
    with assms(2) have "r = initial_report q succ" "w' = ?w2"
      by (auto simp: track_api_call_def Let_def)
    then show ?thesis using w2 False by (auto simp: initial_report_def)
  next
    case True
    with assms(1) w2 have "\<not> usage_table q \<or> \<not> dynamodb_up ?w2" by simp
    then have inc: "increment_usage_counter q operation ?w2 = (0, ?w2)"
      by (rule increment_usage_counter_down)
    let ?res = "(initial_report q succ)\<lparr>usage_count := 0\<rparr>"
    show ?thesis
    proof (cases "\<exists>limit. quota_limit q = Some limit \<and> 0 < limit")
      case False
      with assms(2) True inc have "r = ?res" "w' = ?w2"
        by (auto simp: track_api_call_def Let_def split: option.splits if_splits)
      then show ?thesis using w2 False by (auto simp: initial_report_def)
    next
      case lim: True
      then obtain limit where l: "quota_limit q = Some limit" "0 < limit" by blast
      with assms(2) True inc have ct: "check_thresholds q 0 limit ?res ?w2 = (r, w')"
        by (simp add: track_api_call_def Let_def)
      have m: "published_metrics w' = published_metrics ?w2 @
                 (if cloudwatch q \<and> cloudwatch_up w then ?zero else [])"
        using check_thresholds_metrics[OF ct] put_quota_usage_metric_zero[OF l(2), of q "api_name q" ?w2]
        by (simp add: w2)
      have quiet: "0 < warning_threshold q \<and> 0 < critical_threshold q \<longrightarrow>
                     \<not> alert_sent r \<and> published_alerts w' = published_alerts w"
        using check_thresholds_quiet_at_zero[OF ct] w2 by (simp add: initial_report_def)
      from check_thresholds_frame[OF ct] m quiet True lim show ?thesis
        using w2 by (simp add: initial_report_def to_double_0)
    qed
  qed
  from main names show ?thesis by blast
qed

lemma track_api_call_counts_from_one:
  assumes "succ" and "usage_table q" and "dynamodb_up w"
    and "\<forall>item c. usage_items w (api_name q, period_key w) = Some item \<longrightarrow>
           item_usage_count item = Some c \<longrightarrow> 0 \<le> c"
    and "track_api_call q operation succ error_type w = (r, w')"
  shows "1 \<le> usage_count r"
proof -
  let ?w2 = "publish_call_metrics q operation succ error_type w"
  have w2: "usage_items ?w2 = usage_items w" "dynamodb_up ?w2 = dynamodb_up w" "period_key ?w2 = period_key w"
    using only_metrics_fields[OF publish_call_metrics_only] by blast+
  obtain usage w3 where inc: "increment_usage_counter q operation ?w2 = (usage, w3)"
    by (cases "increment_usage_counter q operation ?w2")
  with assms(2,3,4) w2 have u: "1 \<le> usage"
    by (auto simp: increment_usage_counter_def Let_def split: option.splits)
  show ?thesis
  proof (cases "\<exists>limit. quota_limit q = Some limit \<and> 0 < limit")
    case False
    with assms(1,2,5) inc have "r = (initial_report q succ)\<lparr>usage_count := usage\<rparr>"
      by (auto simp: track_api_call_def Let_def split: option.splits if_splits)
    then show ?thesis using u by simp
  next
    case True
    then obtain limit where l: "quota_limit q = Some limit" "0 < limit" by blast
    with assms(1,2,5) inc
    have "check_thresholds q usage limit ((initial_report q succ)\<lparr>usage_count := usage\<rparr>) w3 = (r, w')"
      by (simp add: track_api_call_def Let_def)
    from check_thresholds_frame[OF this] show ?thesis using u by simp
  qed
qed

subsection \<open>The admission check\<close>

lemma check_quota_available_positive_limit:
  assumes "quota_limit q = Some L" and "0 < L" and "get_current_usage q w = Inr info"
  shows "\<not> check_quota_available q w \<longleftrightarrow> L \<le> info_usage_count info"
  using assms by (auto simp: check_quota_available_def)

lemma check_quota_available_no_limit:
  assumes "quota_limit q = None \<or> quota_limit q = Some 0"
  shows "check_quota_available q w"
  using assms by (auto simp: check_quota_available_def)

lemma get_current_usage_count:
  assumes "usage_table q" and "dynamodb_up w"
  shows "\<exists>info. get_current_usage q w = Inr info \<and>
           info_usage_count info =
             (case usage_items w (api_name q, period_key w) of
                None \<Rightarrow> 0
              | Some item \<Rightarrow> (case item_usage_count item of None \<Rightarrow> 0 | Some c \<Rightarrow> c))"
  using assms by (auto simp: get_current_usage_def Let_def split: option.splits)

text \<open>
  Claim C1. For a limit \<open>L > 0\<close> and a usage count that can be read,
  \<open>check_quota_available\<close> denies exactly when the count is at least \<open>L\<close>
  (\<open>check_quota_available_positive_limit\<close>), and it admits when the limit is unset or
  0 (\<open>check_quota_available_no_limit\<close>). For a negative limit the claim asks for
  admission, but the guard \<open>if not self.quota_limit\<close> lets a negative limit through to
  the comparison \<open>usage_count < quota_limit\<close>: with the limit \<open>-1\<close> and no usage
  recorded yet the check denies. \<open>track_api_call\<close> guards the same limit with
  \<open>quota_limit > 0\<close> and treats it as "no limit".
\<close>

theorem check_quota_available_negative_limit:
  "\<not> check_quota_available (example_monitor\<lparr>quota_limit := Some (- 1)\<rparr>) (example_world None)"
  by (simp add: check_quota_available_def get_current_usage_def example_monitor_def
        example_world_def)

text \<open>
  Claim C9. With a quota limit \<open>L > 0\<close>, when \<open>get_current_usage\<close> returns its
  error dictionary, \<open>check_quota_available\<close> returns \<open>True\<close>: the gate fails open.
\<close>

theorem check_quota_available_fails_open:
  assumes "quota_limit q = Some L" and "0 < L" and "get_current_usage q w = Inl e"
  shows "check_quota_available q w"
  using assms by (auto simp: check_quota_available_def)

theorem check_quota_available_fails_open_witness:
  "quota_limit example_monitor = Some 100 \<and> (0::int) < 100
   \<and> get_current_usage example_monitor ((example_world (Some 250))\<lparr>dynamodb_up := False\<rparr>)
       = Inl ''ClientError''
   \<and> check_quota_available example_monitor ((example_world (Some 250))\<lparr>dynamodb_up := False\<rparr>)"
proof -
  have h1: "quota_limit example_monitor = Some 100"
    by (simp add: example_monitor_def)
  have h2: "(0::int) < 100" by simp
  have h3: "get_current_usage example_monitor ((example_world (Some 250))\<lparr>dynamodb_up := False\<rparr>)
              = Inl ''ClientError''"
    by (simp add: get_current_usage_def example_monitor_def example_world_def)
  from check_quota_available_fails_open[OF h1 h2 h3] h1 h2 h3 show ?thesis by simp
qed

subsection \<open>Sample calls\<close>

lemma to_double_97_percent: "to_double (97 / 100) = 4368491638549381 / 4503599627370496"
  by code_simp

lemma to_double_95_percent: "to_double (19 / 20) = 4278419646001971 / 4503599627370496"
  by code_simp

lemma to_double_80_percent: "to_double (4 / 5) = 3602879701896397 / 4503599627370496"
  by code_simp

lemma example_call_at_97:
  "map alert_level (published_alerts (snd (track_api_call example_monitor ''AutotagPDF'' True None
       (example_world (Some 96))))) = [''CRITICAL'']
   \<and> \<not> quota_exceeded (fst (track_api_call example_monitor ''AutotagPDF'' True None
       (example_world (Some 96))))
   \<and> usage_count (fst (track_api_call example_monitor ''AutotagPDF'' True None
       (example_world (Some 96)))) = 97"
  by (simp add: track_api_call_def publish_call_metrics_def put_api_call_metric_def put_metric_def
        increment_usage_counter_def check_thresholds_def put_quota_usage_metric_def
        send_alert_def initial_report_def example_monitor_def example_world_def Let_def
        to_double_97_percent to_double_95_percent to_double_80_percent)

theorem track_api_call_single_alert_witness:
  "quota_limit example_monitor = Some 100 \<and> (0::int) < 100 \<and> default_thresholds example_monitor
   \<and> map alert_level (published_alerts (snd (track_api_call example_monitor ''AutotagPDF'' True None
         (example_world (Some 96))))) = [''CRITICAL'']
   \<and> \<not> quota_exceeded (fst (track_api_call example_monitor ''AutotagPDF'' True None
         (example_world (Some 96))))"
proof -
  have h1: "quota_limit example_monitor = Some 100"
    by (simp add: example_monitor_def)
  have h2: "(0::int) < 100" by simp
  have h3: "default_thresholds example_monitor"
    by (simp add: default_thresholds_def example_monitor_def)
  have h4: "track_api_call example_monitor ''AutotagPDF'' True None (example_world (Some 96)) =
      (fst (track_api_call example_monitor ''AutotagPDF'' True None (example_world (Some 96))),
       snd (track_api_call example_monitor ''AutotagPDF'' True None (example_world (Some 96))))"
    by simp
  note track_api_call_single_alert[OF h1 h2 h3 h4]
  with h1 h2 h3 example_call_at_97 show ?thesis by blast
qed

theorem track_api_call_failed_call_no_increment_witness:
  "usage_items (snd (track_api_call example_monitor ''AutotagPDF'' False (Some ''ServiceError'')
       (example_world (Some 96)))) = usage_items (example_world (Some 96))
   \<and> usage_count (fst (track_api_call example_monitor ''AutotagPDF'' False (Some ''ServiceError'')
       (example_world (Some 96)))) = 0"
proof -
  have h: "track_api_call example_monitor ''AutotagPDF'' False (Some ''ServiceError'') (example_world (Some 96)) =
      (fst (track_api_call example_monitor ''AutotagPDF'' False (Some ''ServiceError'') (example_world (Some 96))),
       snd (track_api_call example_monitor ''AutotagPDF'' False (Some ''ServiceError'') (example_world (Some 96))))"
    by simp
  from track_api_call_failed_call_no_increment[OF h] show ?thesis by simp
qed

lemmas example_call_defs =
  track_api_call_def publish_call_metrics_def put_api_call_metric_def put_metric_def
  increment_usage_counter_def check_thresholds_def put_quota_usage_metric_def
  send_alert_def initial_report_def example_monitor_def example_world_def Let_def
  float_of_int_def float_mul_def to_double_0 to_double_95_percent to_double_80_percent

theorem track_api_call_ledger_unavailable_witness:
  "\<not> dynamodb_up ((example_world (Some 96))\<lparr>dynamodb_up := False\<rparr>)
   \<and> usage_count (fst (track_api_call example_monitor ''AutotagPDF'' True (Some ''Throttled'')
        ((example_world (Some 96))\<lparr>dynamodb_up := False\<rparr>))) = 0
   \<and> usage_percentage (fst (track_api_call example_monitor ''AutotagPDF'' True (Some ''Throttled'')
        ((example_world (Some 96))\<lparr>dynamodb_up := False\<rparr>))) = 0
   \<and> usage_items (snd (track_api_call example_monitor ''AutotagPDF'' True (Some ''Throttled'')
        ((example_world (Some 96))\<lparr>dynamodb_up := False\<rparr>))) = usage_items (example_world (Some 96))
   \<and> map metric_name (published_metrics (publish_call_metrics example_monitor ''AutotagPDF'' True
        (Some ''Throttled'') ((example_world (Some 96))\<lparr>dynamodb_up := False\<rparr>)))
       = [''APICallCount'', ''APICallStatus'', ''APIError'']"
proof -
  let ?w = "(example_world (Some 96))\<lparr>dynamodb_up := False\<rparr>"
  have h1: "\<not> usage_table example_monitor \<or> \<not> dynamodb_up ?w" by simp
  have h2: "track_api_call example_monitor ''AutotagPDF'' True (Some ''Throttled'') ?w =
      (fst (track_api_call example_monitor ''AutotagPDF'' True (Some ''Throttled'') ?w),
       snd (track_api_call example_monitor ''AutotagPDF'' True (Some ''Throttled'') ?w))"
    by simp
  have c: "cloudwatch example_monitor \<and> cloudwatch_up ?w"
    by (simp add: example_monitor_def example_world_def)
  have m: "published_metrics ?w = []" by (simp add: example_world_def)
  from track_api_call_ledger_unavailable[OF h1 h2] c m show ?thesis by simp
qed

text \<open>
  The claim as stated fails on the marking: with the ledger down, the successful call on
  a monitor with the limit 100 reports the count 0 and the percentage 0 and publishes them
  as \<open>QuotaUsage = 0\<close> and \<open>QuotaUsagePercentage = 0\<close>; and the usage fields of its
  report are those a failed call reports on a ledger that works.
\<close>

theorem track_api_call_reports_zero_when_ledger_down:
  "usage_count (fst (track_api_call example_monitor ''AutotagPDF'' True None
        ((example_world (Some 96))\<lparr>dynamodb_up := False\<rparr>))) = 0
   \<and> usage_percentage (fst (track_api_call example_monitor ''AutotagPDF'' True None
        ((example_world (Some 96))\<lparr>dynamodb_up := False\<rparr>))) = 0
   \<and> map metric_name
        (published_metrics (snd (track_api_call example_monitor ''AutotagPDF'' True None
           ((example_world (Some 96))\<lparr>dynamodb_up := False\<rparr>))))
      = [''APICallCount'', ''APICallStatus'', ''QuotaUsage'', ''QuotaUsagePercentage'']
   \<and> map metric_value
        (published_metrics (snd (track_api_call example_monitor ''AutotagPDF'' True None
           ((example_world (Some 96))\<lparr>dynamodb_up := False\<rparr>))))
      = [1, 1, 0, 0]
   \<and> usage_count (fst (track_api_call example_monitor ''AutotagPDF'' True None
        ((example_world (Some 96))\<lparr>dynamodb_up := False\<rparr>)))
      = usage_count (fst (track_api_call example_monitor ''AutotagPDF'' False None
          (example_world (Some 96))))
   \<and> usage_percentage (fst (track_api_call example_monitor ''AutotagPDF'' True None
        ((example_world (Some 96))\<lparr>dynamodb_up := False\<rparr>)))
      = usage_percentage (fst (track_api_call example_monitor ''AutotagPDF'' False None
          (example_world (Some 96))))
   \<and> quota_exceeded (fst (track_api_call example_monitor ''AutotagPDF'' True None
        ((example_world (Some 96))\<lparr>dynamodb_up := False\<rparr>)))
      = quota_exceeded (fst (track_api_call example_monitor ''AutotagPDF'' False None
          (example_world (Some 96))))"
  by (simp add: example_call_defs)

section \<open>Properties of the approval handler\<close>

lemma job_status_update_status:
  "job_status (update_status job_id st stamp s) i = (if i = job_id then Some st else job_status s i)"
  by (simp add: job_status_def update_status_def Let_def split: option.splits)

lemma bucket_update_status: "bucket (update_status job_id st stamp s) = bucket s"
  by (simp add: update_status_def Let_def)

lemma copy_object_Inr:
  "copy_object e k d s = Inr s2 \<Longrightarrow> pending_jobs s2 = pending_jobs s \<and> bucket s2 d \<noteq> None"
  by (auto simp: copy_object_def split: if_splits option.splits)

lemma copy_object_Inl:
  "copy_object e k d s = Inl err \<longleftrightarrow>
     (copy_object_raises e \<and> err = ClientError ''copy_object failed'')
     \<or> (\<not> copy_object_raises e \<and> bucket s k = None \<and> err = ClientError ''NoSuchKey'')"
  by (auto simp: copy_object_def split: if_splits option.splits)

lemma job_status_cong: "pending_jobs s2 = pending_jobs s \<Longrightarrow> job_status s2 = job_status s"
  by (simp add: job_status_def fun_eq_iff)

lemma revert_status_ok:
  assumes "\<not> revert_raises e" and "revert_status e job_id err s = (resp, s')"
  shows "statusCode resp = 500 \<and> job_status s' job_id = Some ''pending_approval''
       \<and> (\<forall>i. i \<noteq> job_id \<longrightarrow> job_status s' i = job_status s i) \<and> bucket s' = bucket s
       \<and> body resp = ErrorBody (''Failed to start processing: '' @ error_message err)"
  using assms by (auto simp: revert_status_def job_status_update_status bucket_update_status)

lemma start_processing_error:
  assumes "start_processing e job_id job s1 = (resp, s')" and "\<not> revert_raises e"
    and "file_key job \<noteq> None" and "file_name job \<noteq> None" and "statusCode resp \<noteq> 200"
  shows "statusCode resp = 500 \<and> job_status s' job_id = Some ''pending_approval''
       \<and> (\<forall>i. i \<noteq> job_id \<longrightarrow> job_status s' i = job_status s1 i)"
proof -
  from assms(3,4) obtain k f where kf: "file_key job = Some k" "file_name job = Some f" by auto
  show ?thesis
  proof (cases "copy_object e k (''pdf/'' @ f) s1")
    case (Inl err)
    with assms(1) kf have "revert_status e job_id err s1 = (resp, s')"
      by (simp add: start_processing_def)
    from revert_status_ok[OF assms(2) this] show ?thesis by simp
  next
    case (Inr s2)
    have "\<exists>err. revert_status e job_id err s2 = (resp, s')"
    proof (cases "estimated_transactions job")
      case None
      with assms(1) kf Inr show ?thesis by (auto simp: start_processing_def)
    next
      case (Some v)
      with assms(1,5) kf Inr show ?thesis
        by (cases "json_serializable v") (auto simp: start_processing_def)
    qed
    then obtain err where "revert_status e job_id err s2 = (resp, s')" ..
    from revert_status_ok[OF assms(2) this] job_status_cong[of s2 s1] copy_object_Inr[OF Inr]
    show ?thesis by simp
  qed
qed

lemma start_processing_copy_fails:
  assumes "start_processing e job_id job s1 = (resp, s')" and "\<not> revert_raises e"
    and "file_key job = Some k" and "file_name job = Some f"
    and "copy_object_raises e \<or> bucket s1 k = None"
  shows "statusCode resp = 500 \<and> job_status s' job_id = Some ''pending_approval''
       \<and> bucket s' = bucket s1"
proof -
  from assms(5) have "\<exists>err. copy_object e k (''pdf/'' @ f) s1 = Inl err"
    by (cases "copy_object_raises e") (auto simp: copy_object_def)
  then obtain err where "copy_object e k (''pdf/'' @ f) s1 = Inl err" ..
  with assms(1,3,4) have "revert_status e job_id err s1 = (resp, s')"
    by (simp add: start_processing_def)
  from revert_status_ok[OF assms(2) this] show ?thesis by simp
qed


lemma approve_error:
  assumes "approve e job_id s = (resp, s')" and "\<not> revert_raises e"
    and "\<forall>j. pending_jobs s job_id = Some j \<longrightarrow> file_key j \<noteq> None \<and> file_name j \<noteq> None"
    and "statusCode resp \<noteq> 200" and "job_status s' i = Some ''processing''"
  shows "job_status s i = Some ''processing''"
proof (cases "s' = s")
  case True
  with assms(5) show ?thesis by simp
next
  case False
  with assms(1) obtain job where j: "pending_jobs s job_id = Some job"
    and sp: "start_processing e job_id job (update_status job_id ''processing'' (Some (now e)) s) = (resp, s')"
    by (auto simp: approve_def split: if_splits option.splits)
  from assms(3) j have "file_key job \<noteq> None" "file_name job \<noteq> None" by auto
  from start_processing_error[OF sp assms(2) this assms(4)] assms(5)
  show ?thesis by (cases "i = job_id") (auto simp: job_status_update_status)
qed

lemma start_processing_number_estimate:
  assumes "file_key job = Some k" and "file_name job = Some f"
    and "estimated_transactions job = Some (NumberAttr n)"
    and "\<not> copy_object_raises e" and "bucket s1 k = Some content" and "\<not> revert_raises e"
  shows "start_processing e job_id job s1 =
           (\<lparr>statusCode = 500,
             body = ErrorBody (''Failed to start processing: '' @
                      ''Object of type Decimal is not JSON serializable'')\<rparr>,
            update_status job_id ''pending_approval'' None
              (s1\<lparr>bucket := (bucket s1)(''pdf/'' @ f \<mapsto> content)\<rparr>))"
  using assms by (simp add: start_processing_def copy_object_def revert_status_def)

text \<open>
  Claim C3 (as amended). Provided the reverting update does not itself raise and the
  approved job's item carries \<open>file_key\<close> and \<open>file_name\<close>: after any return of
  the handler other than 200, a job has status \<open>processing\<close> only if it had it before
  the call; and when the status was set to \<open>processing\<close> and the copy to
  \<open>pdf/<file_name>\<close> fails, the handler returns 500, the job's status is
  \<open>pending_approval\<close> again and the bucket is unchanged. (The returns other than 200
  include the one after a successful copy whose response cannot be built, see
  \<open>start_processing_number_estimate\<close>: the status is reverted there too.)
\<close>

theorem lambda_handler_dispatch_failure_rolls_back:
  assumes "lambda_handler e ev s = (resp, s')" and "\<not> revert_raises e"
    and "\<forall>job_id j. ev = Request (Some job_id) True \<and> pending_jobs s job_id = Some j
           \<longrightarrow> file_key j \<noteq> None \<and> file_name j \<noteq> None"
  shows "(statusCode resp \<noteq> 200 \<longrightarrow>
            (\<forall>i. job_status s' i = Some ''processing'' \<longrightarrow> job_status s i = Some ''processing''))
       \<and> (\<forall>job_id j k f.
             ev = Request (Some job_id) True \<and> job_id \<noteq> [] \<and> \<not> get_item_raises e
             \<and> pending_jobs s job_id = Some j \<and> status j \<noteq> Some ''processing''
             \<and> \<not> set_processing_raises e \<and> file_key j = Some k \<and> file_name j = Some f
             \<and> (copy_object_raises e \<or> bucket s k = None)
           \<longrightarrow> statusCode resp = 500 \<and> job_status s' job_id = Some ''pending_approval''
               \<and> bucket s' = bucket s)"
proof (intro conjI allI impI)
  fix i
  assume err: "statusCode resp \<noteq> 200" and p: "job_status s' i = Some ''processing''"
  show "job_status s i = Some ''processing''"
  proof (cases "s' = s")
    case True
    with p show ?thesis by simp
  next
    case False
    with assms(1) obtain job_id where ev: "ev = Request (Some job_id) True"
      and ap: "approve e job_id s = (resp, s')"
      by (auto simp: lambda_handler_def split: event.splits option.splits if_splits)
    from ev assms(3)
    have "\<forall>j. pending_jobs s job_id = Some j \<longrightarrow> file_key j \<noteq> None \<and> file_name j \<noteq> None"
      by blast
    from approve_error[OF ap assms(2) this err p] show ?thesis .
  qed
next
  fix job_id j k f
  assume a: "ev = Request (Some job_id) True \<and> job_id \<noteq> [] \<and> \<not> get_item_raises e
             \<and> pending_jobs s job_id = Some j \<and> status j \<noteq> Some ''processing''
             \<and> \<not> set_processing_raises e \<and> file_key j = Some k \<and> file_name j = Some f
             \<and> (copy_object_raises e \<or> bucket s k = None)"
  let ?s1 = "update_status job_id ''processing'' (Some (now e)) s"
  from a assms(1) have sp: "start_processing e job_id j ?s1 = (resp, s')"
    by (simp add: lambda_handler_def approve_def)
  from a have "copy_object_raises e \<or> bucket ?s1 k = None"
    by (simp add: bucket_update_status)
  from start_processing_copy_fails[OF sp assms(2) _ _ this] a
  have "statusCode resp = 500 \<and> job_status s' job_id = Some ''pending_approval'' \<and> bucket s' = bucket ?s1"
    by blast
  then show "statusCode resp = 500" "job_status s' job_id = Some ''pending_approval''"
    "bucket s' = bucket s"
    by (simp_all add: bucket_update_status)
qed

theorem lambda_handler_dispatch_failure_rolls_back_witness:
  "\<not> revert_raises (example_env True False)
   \<and> statusCode (fst (lambda_handler (example_env True False)
        (Request (Some ''report.pdf_1733752800'') True)
        (example_store (example_job ''pending_approval'')))) = 500
   \<and> job_status (snd (lambda_handler (example_env True False)
        (Request (Some ''report.pdf_1733752800'') True)
        (example_store (example_job ''pending_approval''))))
        ''report.pdf_1733752800'' = Some ''pending_approval''"
proof -
  let ?e = "example_env True False"
  let ?ev = "Request (Some ''report.pdf_1733752800'') True"
  let ?s = "example_store (example_job ''pending_approval'')"
  have h1: "lambda_handler ?e ?ev ?s = (fst (lambda_handler ?e ?ev ?s), snd (lambda_handler ?e ?ev ?s))"
    by simp
  have h2: "\<not> revert_raises ?e" by (simp add: example_env_def)
  have h3: "\<forall>job_id j. ?ev = Request (Some job_id) True \<and> pending_jobs ?s job_id = Some j
              \<longrightarrow> file_key j \<noteq> None \<and> file_name j \<noteq> None"
    by (simp add: example_store_def example_job_def)
  have c: "?ev = Request (Some ''report.pdf_1733752800'') True \<and> ''report.pdf_1733752800'' \<noteq> []
       \<and> \<not> get_item_raises ?e
       \<and> pending_jobs ?s ''report.pdf_1733752800'' = Some (example_job ''pending_approval'')
       \<and> status (example_job ''pending_approval'') \<noteq> Some ''processing''
       \<and> \<not> set_processing_raises ?e
       \<and> file_key (example_job ''pending_approval'') = Some ''pdf-upload/report.pdf''
       \<and> file_name (example_job ''pending_approval'') = Some ''report.pdf''
       \<and> (copy_object_raises ?e \<or> bucket ?s ''pdf-upload/report.pdf'' = None)"
    by (simp add: example_env_def example_store_def example_job_def)
  from lambda_handler_dispatch_failure_rolls_back[OF h1 h2 h3] c h2 show ?thesis by blast
qed

text \<open>
  The claim as stated fails when the reverting update raises as well: the outer handler
  returns 500, the job stays in \<open>processing\<close> and nothing was copied.
\<close>

theorem lambda_handler_stranded_in_processing:
  "statusCode (fst (lambda_handler (example_env True True)
      (Request (Some ''report.pdf_1733752800'') True)
      (example_store (example_job ''pending_approval'')))) = 500
   \<and> job_status (snd (lambda_handler (example_env True True)
      (Request (Some ''report.pdf_1733752800'') True)
      (example_store (example_job ''pending_approval''))))
      ''report.pdf_1733752800'' = Some ''processing''
   \<and> bucket (snd (lambda_handler (example_env True True)
      (Request (Some ''report.pdf_1733752800'') True)
      (example_store (example_job ''pending_approval''))))
      ''pdf/report.pdf'' = None"
  by (simp add: lambda_handler_def approve_def start_processing_def example_env_def
        example_store_def example_job_def update_status_def copy_object_def revert_status_def
        job_status_def Let_def)








section \<open>Properties of the cost estimation\<close>

lemma count_elements_floor: "count_elements p = Inr n \<Longrightarrow> 5 \<le> n"
  by (auto simp: count_elements_def Let_def split: sum.splits option.splits if_splits)

lemma count_elements_Inl_iff:
  "(\<exists>e. count_elements p = Inl e) \<longleftrightarrow>
     (\<exists>e. extract_text p = Inl e) \<or> resources p = None
     \<or> (\<exists>subtypes. resources p = Some (Some subtypes) \<and> None \<in> set subtypes)"
  by (auto simp: count_elements_def Let_def split: sum.splits option.splits if_splits)

lemma estimate_elements_from_page_floor: "5 \<le> estimate_elements_from_page p"
  by (cases "count_elements p") (auto simp: estimate_elements_from_page_def dest: count_elements_floor)

lemma sum_page_elements_take:
  "n \<le> length pages \<Longrightarrow>
     sum_page_elements pages n = sum_list (map estimate_elements_from_page (take n pages))"
  by (induction n) (simp_all add: take_Suc_conv_app_nth)

lemma sum_page_elements_floor: "5 * int n \<le> sum_page_elements pages n"
proof (induction n)
  case 0
  show ?case by simp
next
  case (Suc n)
  from Suc estimate_elements_from_page_floor[of "pages ! n"] show ?case by simp
qed

lemma total_elements_first_ten:
  assumes "length (pdf_pages d) = length (pdf_pages d')"
    and "take 10 (pdf_pages d) = take 10 (pdf_pages d')"
  shows "total_elements d = total_elements d'"
proof -
  let ?n = "min (length (pdf_pages d)) 10"
  have "take ?n (pdf_pages d) = take ?n (take 10 (pdf_pages d))"
    by (simp add: min.absorb1)
  also have "\<dots> = take ?n (take 10 (pdf_pages d'))" by (simp only: assms(2))
  also have "\<dots> = take ?n (pdf_pages d')" by (simp add: min.absorb1)
  finally have "take ?n (pdf_pages d) = take ?n (pdf_pages d')" .
  then have "sum_page_elements (pdf_pages d) ?n = sum_page_elements (pdf_pages d') ?n"
    using assms(1) by (simp add: sum_page_elements_take)
  with assms(1) show ?thesis by (simp add: total_elements_def)
qed

lemma analyze_pdf_no_pages:
  "pdf_pages doc = [] \<Longrightarrow> analyze_pdf stamp key (Inr doc) = Inl ZeroDivisionError"
  by (simp add: analyze_pdf_def truediv_def)

lemma analyze_pdf_returns:
  "pdf_pages doc \<noteq> [] \<Longrightarrow> \<exists>a. analyze_pdf stamp key (Inr doc) = Inr a"
  by (cases "pdf_pages doc") (auto simp: analyze_pdf_def truediv_def Let_def)

lemma analyze_pdf_unreadable: "analyze_pdf stamp key (Inl e) = Inl e"
  by (simp add: analyze_pdf_def)

text \<open>
  Claim C7 (as amended). For a readable document with \<open>P \<ge> 1\<close> pages, \<open>analyze_pdf\<close>
  returns an analysis. The total is the sum of the estimates of the first \<open>min(P, 10)\<close>
  pages, each of them at least 5 (later pages do not enter it, see
  \<open>total_elements_first_ten\<close>). \<open>estimated_elements\<close> is the float product of the
  float mean \<open>total / min(P, 10)\<close> and \<open>P\<close>, truncated; \<open>estimated_adobe_transactions\<close>
  equals it; and \<open>estimated_cost_percentage\<close> is \<open>transactions / 25000 * 100\<close>
  rounded to two decimals.
\<close>

theorem analyze_pdf_estimate:
  assumes "pdf_pages doc \<noteq> []"
  shows "\<exists>a. analyze_pdf stamp key (Inr doc) = Inr a
      \<and> num_pages a = length (pdf_pages doc)
      \<and> total_elements doc =
          sum_list (map estimate_elements_from_page
            (take (min (length (pdf_pages doc)) 10) (pdf_pages doc)))
      \<and> (\<forall>p \<in> set (take (min (length (pdf_pages doc)) 10) (pdf_pages doc)).
            5 \<le> estimate_elements_from_page p)
      \<and> estimated_elements a =
          py_int (float_mul
            (to_double (of_int (total_elements doc) / of_int (int (min (length (pdf_pages doc)) 10))))
            (float_of_int (int (length (pdf_pages doc)))))
      \<and> estimated_adobe_transactions a = estimated_elements a
      \<and> estimated_cost_percentage a =
          py_round (float_mul (to_double (of_int (estimated_adobe_transactions a) / 25000)) 100) 2"
proof -
  let ?P = "length (pdf_pages doc)"
  from assms have pos: "int (min ?P 10) \<noteq> 0" by (cases "pdf_pages doc") auto
  have t: "total_elements doc =
      sum_list (map estimate_elements_from_page (take (min ?P 10) (pdf_pages doc)))"
    unfolding total_elements_def by (rule sum_page_elements_take) simp
  have f: "\<forall>p \<in> set (take (min ?P 10) (pdf_pages doc)). 5 \<le> estimate_elements_from_page p"
    by (simp add: estimate_elements_from_page_floor)
  from pos have "truediv (total_elements doc) (int (min ?P 10)) =
      Inr (to_double (of_int (total_elements doc) / of_int (int (min ?P 10))))"
    by (simp add: truediv_def)
  then show ?thesis using t f
    by (simp add: analyze_pdf_def Let_def)
qed

lemma example_page_elements: "estimate_elements_from_page example_page = 6"
  by (simp add: estimate_elements_from_page_def count_elements_def example_page_def
        line_elements_def strip_def isspace_def isupper_def table_indicator_def Let_def)

lemma example_total: "total_elements (example_document [example_page]) = 6"
proof -
  have "sum_page_elements [example_page] (Suc 0) = 6"
    by (simp add: example_page_elements)
  then show ?thesis by (simp add: total_elements_def example_document_def)
qed

lemma float_six: "py_int (float_mul (to_double 6) (float_of_int 1)) = 6"
  by code_simp

lemma float_cost_six_reduced:
  "py_round (float_mul (to_double (3 / 12500)) 100) 2 = to_double (1 / 50)"
  by code_simp

lemma float_cost_six:
  "py_round (float_mul (to_double (6 / 25000)) 100) 2 = to_double (1 / 50)"
  by code_simp

lemma float_cost_six_unrounded:
  "to_double (1 / 50) \<noteq> float_mul (to_double (6 / 25000)) 100 \<and> to_double (1 / 50) \<noteq> 6 / 25000 * 100"
  by code_simp

theorem analyze_pdf_estimate_witness:
  "pdf_pages (example_document [example_page]) \<noteq> []
   \<and> map_sum id estimated_adobe_transactions
       (analyze_pdf ''2025-01-15'' ''pdf-upload/report.pdf'' (Inr (example_document [example_page])))
     = Inr 6
   \<and> map_sum id estimated_cost_percentage
       (analyze_pdf ''2025-01-15'' ''pdf-upload/report.pdf'' (Inr (example_document [example_page])))
     = Inr (to_double (1 / 50))"
proof -
  have h: "pdf_pages (example_document [example_page]) \<noteq> []"
    by (simp add: example_document_def)
  from analyze_pdf_estimate[OF h, of "''2025-01-15''" "''pdf-upload/report.pdf''"]
  obtain a where a: "analyze_pdf ''2025-01-15'' ''pdf-upload/report.pdf''
        (Inr (example_document [example_page])) = Inr a"
    and e: "estimated_elements a =
          py_int (float_mul
            (to_double (of_int (total_elements (example_document [example_page]))
               / of_int (int (min (length (pdf_pages (example_document [example_page]))) 10))))
            (float_of_int (int (length (pdf_pages (example_document [example_page]))))))"
    and tr: "estimated_adobe_transactions a = estimated_elements a"
    and c: "estimated_cost_percentage a =
          py_round (float_mul (to_double (of_int (estimated_adobe_transactions a) / 25000)) 100) 2"
    by blast
  have len: "length (pdf_pages (example_document [example_page])) = 1"
    by (simp add: example_document_def)
  from e have "estimated_elements a = 6"
    by (simp add: example_total len float_six)
  with tr c have "estimated_adobe_transactions a = 6"
    "estimated_cost_percentage a = to_double (1 / 50)"
    by (simp_all add: float_cost_six float_cost_six_reduced)
  with a h show ?thesis by simp
qed

text \<open>
  The claim as stated fails on the last equation: the code rounds the percentage to two
  decimals. A one-page document with 6 elements has 6 estimated transactions; its
  percentage is reported as 0.02, which is neither the float \<open>6 / 25000 * 100\<close> nor the
  exact 0.024.
\<close>

theorem analyze_pdf_cost_percentage_rounded:
  "map_sum id estimated_adobe_transactions
       (analyze_pdf ''2025-01-15'' ''pdf-upload/report.pdf'' (Inr (example_document [example_page])))
     = Inr 6
   \<and> map_sum id estimated_cost_percentage
       (analyze_pdf ''2025-01-15'' ''pdf-upload/report.pdf'' (Inr (example_document [example_page])))
     = Inr (to_double (1 / 50))
   \<and> to_double (1 / 50) \<noteq> float_mul (to_double (6 / 25000)) 100
   \<and> to_double (1 / 50) \<noteq> 6 / 25000 * 100"
proof -
  have len: "length (pdf_pages (example_document [example_page])) = 1"
    by (simp add: example_document_def)
  have "truediv (total_elements (example_document [example_page])) 1 = Inr (to_double 6)"
    by (simp add: truediv_def example_total)
  then have "map_sum id estimated_adobe_transactions
       (analyze_pdf ''2025-01-15'' ''pdf-upload/report.pdf'' (Inr (example_document [example_page])))
     = Inr 6
   \<and> map_sum id estimated_cost_percentage
       (analyze_pdf ''2025-01-15'' ''pdf-upload/report.pdf'' (Inr (example_document [example_page])))
     = Inr (to_double (1 / 50))"
    by (simp add: analyze_pdf_def Let_def len float_six float_cost_six float_cost_six_reduced)
  with float_cost_six_unrounded show ?thesis by blast
qed

text \<open>
  Claim C10. When the body of the estimator raises on a page (the text extraction fails,
  the page has no \<open>/Resources\<close>, or an object under \<open>/XObject\<close> has no \<open>/Subtype\<close>),
  \<open>estimate_elements_from_page\<close> returns the fallback 10; and the analysis of a
  readable document that contains the page returns a result, not an error.
\<close>

theorem estimate_elements_from_page_fallback:
  assumes "count_elements p = Inl e"
  shows "estimate_elements_from_page p = 10
       \<and> (\<forall>doc stamp key. p \<in> set (pdf_pages doc) \<longrightarrow>
             (\<exists>a. analyze_pdf stamp key (Inr doc) = Inr a))"
proof -
  from assms have "estimate_elements_from_page p = 10"
    by (simp add: estimate_elements_from_page_def)
  moreover have "\<exists>a. analyze_pdf stamp key (Inr doc) = Inr a"
    if "p \<in> set (pdf_pages doc)" for doc stamp key
  proof -
    from that have "pdf_pages doc \<noteq> []" by auto
    then show ?thesis by (rule analyze_pdf_returns)
  qed
  ultimately show ?thesis by blast
qed

theorem estimate_elements_from_page_fallback_witness:
  "count_elements corrupt_page = Inl (ReadError ''bad content stream'')
   \<and> estimate_elements_from_page corrupt_page = 10
   \<and> (\<exists>a. analyze_pdf ''2025-01-15'' ''pdf-upload/report.pdf''
              (Inr (example_document [example_page, corrupt_page])) = Inr a)"
proof -
  have h: "count_elements corrupt_page = Inl (ReadError ''bad content stream'')"
    by (simp add: count_elements_def corrupt_page_def)
  have m: "corrupt_page \<in> set (pdf_pages (example_document [example_page, corrupt_page]))"
    by (simp add: example_document_def)
  from estimate_elements_from_page_fallback[OF h] h m show ?thesis by blast
qed

section \<open>Properties of the workflow\<close>

lemma runs_chain_ConsI:
  "a \<in> runs items s \<Longrightarrow> b \<in> runs_chain items ss \<Longrightarrow> a @ b \<in> runs_chain items (s # ss)"
  by auto

lemma runs_branches_ConsI:
  "a \<in> runs_chain items b \<Longrightarrow> t \<in> runs_branches items bs \<Longrightarrow> u \<in> shuffles a t
     \<Longrightarrow> u \<in> runs_branches items (b # bs)"
  by auto

lemma append_in_shuffles: "xs @ ys \<in> shuffles xs ys"
  by (induction xs) (simp_all add: Cons_in_shuffles_leftI)

lemma shuffle_copies_subset: "t \<in> shuffle_copies n A \<Longrightarrow> set t \<subseteq> \<Union>(set ` A)"
proof (induction n arbitrary: t)
  case 0
  then show ?case by simp
next
  case (Suc n)
  then obtain a u where "a \<in> A" "u \<in> shuffle_copies n A" "t \<in> shuffles a u" by auto
  with Suc.IH[of u] set_shuffles[of t a u] show ?case by auto
qed

lemma starts_after_filter:
  assumes "P a" and "P b"
  shows "starts_after b a (filter P h) = starts_after b a h"
proof -
  have "a \<in> set (takeWhile (\<lambda>x. x \<noteq> b) (filter P h)) \<longleftrightarrow> a \<in> set (takeWhile (\<lambda>x. x \<noteq> b) h)"
    using assms by (induction h) auto
  with assms show ?thesis by (simp add: starts_after_def)
qed

lemma starts_after_take: "starts_after b a h \<Longrightarrow> starts_after b a (take n h)"
proof (induction h arbitrary: n)
  case Nil
  then show ?case by (simp add: starts_after_def)
next
  case (Cons x xs)
  show ?case
  proof (cases n)
    case 0
    then show ?thesis by (simp add: starts_after_def)
  next
    case (Suc m)
    show ?thesis
    proof (cases "x = b")
      case True
      with Cons.prems show ?thesis by (simp add: starts_after_def)
    next
      case False
      with Cons.prems have "starts_after b a xs \<or> a = x"
        by (auto simp: starts_after_def)
      then show ?thesis
      proof
        assume "starts_after b a xs"
        from Cons.IH[OF this, of m] Suc False show ?thesis
          by (auto simp: starts_after_def)
      next
        assume "a = x"
        with Suc False show ?thesis by (simp add: starts_after_def)
      qed
    qed
  qed
qed

lemma runs_chain_chain:
  assumes "m \<in> runs_chain items chain"
  shows "\<exists>inner. set inner \<subseteq> {Entered ''ECS RunTask'', Exited ''ECS RunTask'',
                    Entered ''ECS RunTask (1)'', Exited ''ECS RunTask (1)''}
           \<and> m = Entered ''Map'' # inner @ main_branch_tail"
proof -
  from assms obtain inner where
    i: "inner \<in> shuffle_copies items (runs_chain items [ecs_task_1, ecs_task_2])"
    and m: "m = (Entered ''Map'' # inner @ [Exited ''Map'']) @
       [Entered ''Invoke Java Lambda'', Exited ''Invoke Java Lambda'',
        Entered ''Invoke Add Title Lambda'', Exited ''Invoke Add Title Lambda'',
        Entered ''a11y_postcheck'', Exited ''a11y_postcheck'']"
    by (auto simp: chain_def map_state_def java_lambda_task_def add_title_lambda_task_def
        a11y_postcheck_lambda_task_def)
  have e: "runs_chain items [ecs_task_1, ecs_task_2] =
      {[Entered ''ECS RunTask'', Exited ''ECS RunTask'',
        Entered ''ECS RunTask (1)'', Exited ''ECS RunTask (1)'']}"
    by (simp add: ecs_task_1_def ecs_task_2_def)
  from shuffle_copies_subset[OF i]
  have "set inner \<subseteq> {Entered ''ECS RunTask'', Exited ''ECS RunTask'',
                    Entered ''ECS RunTask (1)'', Exited ''ECS RunTask (1)''}"
    unfolding e by auto
  with m show ?thesis by (auto simp: main_branch_tail_def)
qed

lemma runs_state_machine:
  assumes "t \<in> runs_chain items state_machine"
  shows "\<exists>m u. m \<in> runs_chain items chain
           \<and> u \<in> shuffles m [Entered ''a11y_precheck'', Exited ''a11y_precheck'']
           \<and> t = Entered ''ParallelState'' # u @ [Exited ''ParallelState'']"
  using assms
  by (auto simp: state_machine_def parallel_state_def a11y_precheck_lambda_task_def)

lemma main_branch_order:
  assumes "set inner \<subseteq> {Entered ''ECS RunTask'', Exited ''ECS RunTask'',
                    Entered ''ECS RunTask (1)'', Exited ''ECS RunTask (1)''}"
  shows "starts_after (Entered ''Invoke Java Lambda'') (Exited ''Map'')
           (Entered ''Map'' # inner @ main_branch_tail)"
    and "starts_after (Entered ''Invoke Add Title Lambda'') (Exited ''Invoke Java Lambda'')
           (Entered ''Map'' # inner @ main_branch_tail)"
    and "starts_after (Entered ''a11y_postcheck'') (Exited ''Invoke Add Title Lambda'')
           (Entered ''Map'' # inner @ main_branch_tail)"
proof -
  have a: "takeWhile (\<lambda>x. x \<noteq> b) (inner @ main_branch_tail) =
             inner @ takeWhile (\<lambda>x. x \<noteq> b) main_branch_tail"
    if "b \<notin> {Entered ''ECS RunTask'', Exited ''ECS RunTask'',
               Entered ''ECS RunTask (1)'', Exited ''ECS RunTask (1)''}" for b
    using assms that by (intro takeWhile_append2) auto
  show "starts_after (Entered ''Invoke Java Lambda'') (Exited ''Map'')
           (Entered ''Map'' # inner @ main_branch_tail)"
    by (simp add: starts_after_def a) (simp add: main_branch_tail_def)
  show "starts_after (Entered ''Invoke Add Title Lambda'') (Exited ''Invoke Java Lambda'')
           (Entered ''Map'' # inner @ main_branch_tail)"
    by (simp add: starts_after_def a) (simp add: main_branch_tail_def)
  show "starts_after (Entered ''a11y_postcheck'') (Exited ''Invoke Add Title Lambda'')
           (Entered ''Map'' # inner @ main_branch_tail)"
    by (simp add: starts_after_def a) (simp add: main_branch_tail_def)
qed

text \<open>
  Claim C8 (as amended). In every execution, whatever the number of chunks, and at every
  point of its history: the merge (\<open>Invoke Java Lambda\<close>) starts only after the
  \<open>Map\<close> over the chunks has completed, the title stage only after the merge, and the
  final check only after the title stage; these three stages are the tail of the main
  branch of the \<open>Parallel\<close> state, not states after it. The \<open>Parallel\<close> state
  completes (the join) only after the final check of the main branch and the pre-check of
  the second branch have completed.
\<close>

theorem post_processing_in_main_branch:
  assumes "t \<in> runs_chain items state_machine"
  shows "starts_after (Entered ''Invoke Java Lambda'') (Exited ''Map'') (take n t)
       \<and> starts_after (Entered ''Invoke Add Title Lambda'') (Exited ''Invoke Java Lambda'') (take n t)
       \<and> starts_after (Entered ''a11y_postcheck'') (Exited ''Invoke Add Title Lambda'') (take n t)
       \<and> starts_after (Exited ''ParallelState'') (Exited ''a11y_postcheck'') (take n t)
       \<and> starts_after (Exited ''ParallelState'') (Exited ''a11y_precheck'') (take n t)"
proof -
  let ?pre = "[Entered ''a11y_precheck'', Exited ''a11y_precheck'']"
  let ?P = "\<lambda>e. e \<notin> {Entered ''a11y_precheck'', Exited ''a11y_precheck'',
                       Entered ''ParallelState'', Exited ''ParallelState''}"
  from runs_state_machine[OF assms] obtain m u where m: "m \<in> runs_chain items chain"
    and u: "u \<in> shuffles m ?pre"
    and t: "t = Entered ''ParallelState'' # u @ [Exited ''ParallelState'']"
    by blast
  from runs_chain_chain[OF m] obtain inner where
    inner: "set inner \<subseteq> {Entered ''ECS RunTask'', Exited ''ECS RunTask'',
                    Entered ''ECS RunTask (1)'', Exited ''ECS RunTask (1)''}"
    and m_eq: "m = Entered ''Map'' # inner @ main_branch_tail"
    by blast
  have Pm: "\<forall>e\<in>set m. ?P e"
    using inner unfolding m_eq main_branch_tail_def by auto
  then have fm: "filter ?P m = m" by (simp add: filter_id_conv)
  from u have "filter ?P u \<in> filter ?P ` shuffles m ?pre" by (rule imageI)
  then have "filter ?P u \<in> shuffles (filter ?P m) (filter ?P ?pre)"
    by (simp only: filter_shuffles)
  moreover have "filter ?P ?pre = []" by simp
  ultimately have "filter ?P u \<in> shuffles m []" unfolding fm by (simp only:)
  then have fu: "filter ?P u = m" by (cases m) simp_all
  have ft: "filter ?P t = m" unfolding t using fu by simp
  have set_u: "set u = set m \<union> set ?pre" using u by (rule set_shuffles)
  have main: "starts_after b a t" if "starts_after b a m" "?P a" "?P b" for a b
    using starts_after_filter[of ?P a b t] that ft by simp
  have 1: "starts_after (Entered ''Invoke Java Lambda'') (Exited ''Map'') t"
    by (rule main) (use main_branch_order(1)[OF inner] m_eq in simp_all)
  have 2: "starts_after (Entered ''Invoke Add Title Lambda'') (Exited ''Invoke Java Lambda'') t"
    by (rule main) (use main_branch_order(2)[OF inner] m_eq in simp_all)
  have 3: "starts_after (Entered ''a11y_postcheck'') (Exited ''Invoke Add Title Lambda'') t"
    by (rule main) (use main_branch_order(3)[OF inner] m_eq in simp_all)
  have nu: "Exited ''ParallelState'' \<notin> set u"
    using Pm set_u by auto
  then have "takeWhile (\<lambda>x. x \<noteq> Exited ''ParallelState'') (u @ [Exited ''ParallelState'']) =
      u @ takeWhile (\<lambda>x. x \<noteq> Exited ''ParallelState'') [Exited ''ParallelState'']"
    by (intro takeWhile_append2) auto
  then have tw: "takeWhile (\<lambda>x. x \<noteq> Exited ''ParallelState'') t = Entered ''ParallelState'' # u"
    unfolding t by simp
  have "Exited ''a11y_postcheck'' \<in> set u" "Exited ''a11y_precheck'' \<in> set u"
    using set_u by (simp_all add: m_eq main_branch_tail_def)
  then have 4: "starts_after (Exited ''ParallelState'') (Exited ''a11y_postcheck'') t"
    and 5: "starts_after (Exited ''ParallelState'') (Exited ''a11y_precheck'') t"
    by (simp_all add: starts_after_def tw)
  from 1 2 3 4 5 show ?thesis by (simp add: starts_after_take)
qed

lemma sequential_run_is_run: "sequential_run \<in> runs_chain 1 state_machine"
proof -
  let ?ecs = "[Entered ''ECS RunTask'', Exited ''ECS RunTask'',
               Entered ''ECS RunTask (1)'', Exited ''ECS RunTask (1)'']"
  let ?pre = "[Entered ''a11y_precheck'', Exited ''a11y_precheck'']"
  let ?m = "Entered ''Map'' # ?ecs @ main_branch_tail"
  have "?ecs \<in> runs_chain 1 [ecs_task_1, ecs_task_2]"
    by (simp add: ecs_task_1_def ecs_task_2_def)
  then have "?ecs \<in> shuffle_copies (Suc 0) (runs_chain 1 [ecs_task_1, ecs_task_2])"
    by (simp del: runs_chain.simps)
  then have "Entered ''Map'' # ?ecs @ [Exited ''Map''] \<in> runs 1 map_state"
    by (simp add: map_state_def del: runs_chain.simps shuffle_copies.simps)
  moreover have "[Entered ''Invoke Java Lambda'', Exited ''Invoke Java Lambda'',
        Entered ''Invoke Add Title Lambda'', Exited ''Invoke Add Title Lambda'',
        Entered ''a11y_postcheck'', Exited ''a11y_postcheck'']
      \<in> runs_chain 1 [java_lambda_task, add_title_lambda_task, a11y_postcheck_lambda_task]"
    by (simp add: java_lambda_task_def add_title_lambda_task_def a11y_postcheck_lambda_task_def)
  ultimately have "(Entered ''Map'' # ?ecs @ [Exited ''Map'']) @
       [Entered ''Invoke Java Lambda'', Exited ''Invoke Java Lambda'',
        Entered ''Invoke Add Title Lambda'', Exited ''Invoke Add Title Lambda'',
        Entered ''a11y_postcheck'', Exited ''a11y_postcheck''] \<in> runs_chain 1 chain"
    unfolding chain_def by (rule runs_chain_ConsI)
  then have m: "?m \<in> runs_chain 1 chain" by (simp add: main_branch_tail_def)
  have p: "?pre \<in> runs_branches 1 [[a11y_precheck_lambda_task]]"
    by (simp add: a11y_precheck_lambda_task_def)
  have "?m @ ?pre \<in> shuffles ?m ?pre" by (rule append_in_shuffles)
  with m p have "?m @ ?pre \<in> runs_branches 1 [chain, [a11y_precheck_lambda_task]]"
    by (rule runs_branches_ConsI)
  then have "Entered ''ParallelState'' # (?m @ ?pre) @ [Exited ''ParallelState''] \<in> runs 1 parallel_state"
    by (simp add: parallel_state_def del: runs_branches.simps)
  then have "(Entered ''ParallelState'' # (?m @ ?pre) @ [Exited ''ParallelState'']) @ []
      \<in> runs_chain 1 state_machine"
    unfolding state_machine_def by (rule runs_chain_ConsI) simp
  then show ?thesis by (simp add: sequential_run_def main_branch_tail_def)
qed

theorem post_processing_in_main_branch_witness:
  "sequential_run \<in> runs_chain 1 state_machine
   \<and> starts_after (Entered ''Invoke Java Lambda'') (Exited ''Map'') (take 9 sequential_run)
   \<and> starts_after (Exited ''ParallelState'') (Exited ''a11y_precheck'') (take 16 sequential_run)"
  using post_processing_in_main_branch[OF sequential_run_is_run, of 9]
    post_processing_in_main_branch[OF sequential_run_is_run, of 16] sequential_run_is_run
  by blast

text \<open>
  The claim as stated fails: post-processing is not placed after the \<open>Parallel\<close> state,
  so it does not wait for the second branch. In the execution \<open>sequential_run\<close> the
  merge, the title stage and the final check all start before the pre-check has even been
  entered.
\<close>

theorem post_processing_before_join:
  "sequential_run \<in> runs_chain 1 state_machine
   \<and> \<not> starts_after (Entered ''Invoke Java Lambda'') (Exited ''a11y_precheck'') sequential_run
   \<and> \<not> starts_after (Entered ''Invoke Java Lambda'') (Exited ''ParallelState'') sequential_run
   \<and> starts_after (Entered ''a11y_precheck'') (Exited ''a11y_postcheck'') sequential_run"
  using sequential_run_is_run by (simp add: starts_after_def sequential_run_def)

end
